theory Spec2Isabelle
  imports Main "HOL-Library.Word"
begin

section \<open>The LCP crypto provider: a shallow embedding\<close>

text \<open>
  The development follows \<^verbatim>\<open>CryptoppCryptoProvider.cpp\<close> and
  \<^verbatim>\<open>LcpServiceCreator.cpp\<close>.  A C++ method that writes through a reference or
  pointer parameter takes the old value of that parameter and returns the new one next
  to its result.  A method that can be left by an exception returns a sum: \<open>Inl\<close> the
  exception that leaves it, \<open>Inr\<close> the value it returns.
\<close>

subsection \<open>Bytes, status values, exceptions\<close>

type_synonym byte = "8 word"

text \<open>\<^verbatim>\<open>KeyType\<close> is \<^verbatim>\<open>std::vector<unsigned char>\<close>.\<close>

type_synonym KeyType = "byte list"

text \<open>The conversion of a \<^verbatim>\<open>char\<close> of a \<^verbatim>\<open>std::string\<close> to \<^verbatim>\<open>unsigned char\<close>.\<close>

definition byte_of_char :: "char \<Rightarrow> byte" where
  "byte_of_char c = of_char c"

text \<open>The status codes that the two source files construct.\<close>

datatype StatusCode =
    ErrorCommonSuccess
  | ErrorCommonEncryptionProfileNotFound
  | ErrorOpeningNoRootCertificate
  | ErrorOpeningRootCertificateNotValid
  | ErrorOpeningContentProviderCertificateNotValid
  | ErrorOpeningContentProviderCertificateNotVerified
  | ErrorOpeningContentProviderCertificateRevoked
  | ErrorOpeningLicenseSignatureNotValid
  | ErrorOpeningContentProviderCertificateNotStarted
  | ErrorOpeningContentProviderCertificateExpired
  | ErrorDecryptionUserPassphraseNotValid
  | ErrorDecryptionLicenseEncrypted
  | ErrorDecryptionPublicationEncrypted
  | ErrorDecryptionCommonError

text \<open>
  \<^verbatim>\<open>Status(code)\<close> and \<^verbatim>\<open>Status(code, extension)\<close>: a status code and a free-text
  detail, empty when the constructor is given the code alone.
\<close>

record Status =
  Code :: StatusCode
  Extension :: string

definition mkStatus :: "StatusCode \<Rightarrow> Status" where
  "mkStatus c = \<lparr>Code = c, Extension = []\<rparr>"

definition mkStatusExt :: "StatusCode \<Rightarrow> string \<Rightarrow> Status" where
  "mkStatusExt c ext = \<lparr>Code = c, Extension = ext\<rparr>"

text \<open>
  Modelled from the spec: \<^verbatim>\<open>Status::IsSuccess\<close> lives in the public status header,
  which is not among the sources.  The spec names \<^verbatim>\<open>CommonSuccess\<close> as the one
  success value of the status enumeration.
\<close>

definition IsSuccess :: "Status \<Rightarrow> bool" where
  "IsSuccess st = (Code st = ErrorCommonSuccess)"

text \<open>
  The exceptions the code distinguishes.  \<^verbatim>\<open>CryptoPP::BERDecodeErr\<close> is a subclass of
  \<^verbatim>\<open>CryptoPP::Exception\<close>, so a handler for the latter catches both;
  \<^verbatim>\<open>std::invalid_argument\<close> and every other exception are caught by no handler of
  the provider.  Each exception carries its message.
\<close>

datatype exn =
    BERDecodeErr string
  | CryptoppException string
  | InvalidArgument string
  | OtherException string

fun is_cryptopp :: "exn \<Rightarrow> bool" where
  "is_cryptopp (BERDecodeErr w) = True"
| "is_cryptopp (CryptoppException w) = True"
| "is_cryptopp (InvalidArgument w) = False"
| "is_cryptopp (OtherException w) = False"

fun GetWhat :: "exn \<Rightarrow> string" where
  "GetWhat (BERDecodeErr w) = w"
| "GetWhat (CryptoppException w) = w"
| "GetWhat (InvalidArgument w) = w"
| "GetWhat (OtherException w) = w"

text \<open>
  The shape \<^verbatim>\<open>try { ... } catch (const CryptoPP::Exception & ex) { return Status(code, ex.GetWhat()); }\<close>
  that closes every method of the provider: a Crypto++ exception becomes a status, any
  other exception leaves the method.
\<close>

definition catch_cryptopp :: "StatusCode \<Rightarrow> exn \<Rightarrow> exn + Status" where
  "catch_cryptopp c e = (if is_cryptopp e then Inr (mkStatusExt c (GetWhat e)) else Inl e)"

subsection \<open>Hexadecimal conversion\<close>

text \<open>
  Modelled from the spec: \<^verbatim>\<open>CryptoppUtils::RawToHex\<close> and \<^verbatim>\<open>CryptoppUtils::HexToRaw\<close>
  are not among the sources.  The spec asks for lowercase hexadecimal without
  separators, two digits per byte, for upper case to be accepted on input, and for an
  input of odd length to end in \<^verbatim>\<open>CommonError\<close>, which the provider produces only from
  a Crypto++ exception.  The spec is silent on characters that are no hexadecimal digit;
  here they raise as well.
\<close>

definition hex_digit :: "nat \<Rightarrow> char" where
  "hex_digit n = ''0123456789abcdef'' ! n"

definition hex_value :: "char \<Rightarrow> nat option" where
  "hex_value c =
     (let n = (of_char c :: nat) in
      if 48 \<le> n \<and> n \<le> 57 then Some (n - 48)
      else if 97 \<le> n \<and> n \<le> 102 then Some (n - 87)
      else if 65 \<le> n \<and> n \<le> 70 then Some (n - 55)
      else None)"

fun hex_encode :: "byte list \<Rightarrow> string" where
  "hex_encode [] = []"
| "hex_encode (b # bs) =
     hex_digit (unat b div 16) # hex_digit (unat b mod 16) # hex_encode bs"

fun hex_decode :: "string \<Rightarrow> exn + byte list" where
  "hex_decode [] = Inr []"
| "hex_decode [c] = Inl (CryptoppException ''HexToRaw: odd number of digits'')"
| "hex_decode (c # d # cs) =
     (case (hex_value c, hex_value d) of
        (Some h, Some l) \<Rightarrow>
          (case hex_decode cs of
             Inl e \<Rightarrow> Inl e
           | Inr bs \<Rightarrow> Inr (of_nat (16 * h + l) # bs))
      | _ \<Rightarrow> Inl (CryptoppException ''HexToRaw: not a hexadecimal digit''))"

definition RawToHex :: "byte list \<Rightarrow> exn + string" where
  "RawToHex data = Inr (hex_encode data)"

definition HexToRaw :: "string \<Rightarrow> exn + byte list" where
  "HexToRaw hex =
     (if odd (length hex) then Inl (CryptoppException ''HexToRaw: odd number of digits'')
      else hex_decode hex)"

text \<open>
  \<^verbatim>\<open>CryptoppCryptoProvider::ConvertRawToHex(data, hex)\<close> and
  \<^verbatim>\<open>CryptoppCryptoProvider::ConvertHexToRaw(hex, data)\<close>.  The second component is the
  out-parameter after the call; it keeps its old value when the conversion raises.
\<close>

definition ConvertRawToHex :: "byte list \<Rightarrow> string \<Rightarrow> (exn + Status) \<times> string" where
  "ConvertRawToHex data hex =
     (case RawToHex data of
        Inr h \<Rightarrow> (Inr (mkStatus ErrorCommonSuccess), h)
      | Inl ex \<Rightarrow> (catch_cryptopp ErrorDecryptionCommonError ex, hex))"

definition ConvertHexToRaw :: "string \<Rightarrow> byte list \<Rightarrow> (exn + Status) \<times> byte list" where
  "ConvertHexToRaw hex data =
     (case HexToRaw hex of
        Inr d \<Rightarrow> (Inr (mkStatus ErrorCommonSuccess), d)
      | Inl ex \<Rightarrow> (catch_cryptopp ErrorDecryptionCommonError ex, data))"

text \<open>The upper-case form of a lowercase hexadecimal digit, to state what the decoder accepts.\<close>

definition hex_upper :: "char \<Rightarrow> char" where
  "hex_upper c =
     (if c = CHR ''a'' then CHR ''A'' else if c = CHR ''b'' then CHR ''B''
      else if c = CHR ''c'' then CHR ''C'' else if c = CHR ''d'' then CHR ''D''
      else if c = CHR ''e'' then CHR ''E'' else if c = CHR ''f'' then CHR ''F'' else c)"

subsection \<open>Licenses, profiles and the collaborators of the provider\<close>

text \<open>
  \<^verbatim>\<open>ILicense\<close> and \<^verbatim>\<open>ICrypto\<close> are read through their getters only; all of them
  return \<^verbatim>\<open>std::string\<close>.
\<close>

record ICrypto =
  EncryptionProfile :: string
  SignatureCertificate :: string
  Signature :: string
  UserKeyCheck :: string
  ContentKey :: string

record ILicense =
  Id_license :: string
  Issued :: string
  Updated :: string
  CanonicalContent :: string
  Crypto :: ICrypto

text \<open>
  Modelled from the spec: \<^verbatim>\<open>EqualsUtf8\<close> is not among the sources; the spec has the
  decrypted check value compared to the license id for equality of their UTF-8 bytes.
\<close>

definition EqualsUtf8 :: "string \<Rightarrow> string \<Rightarrow> bool" where
  "EqualsUtf8 left right = (left = right)"

text \<open>
  Modelled from the spec: \<^verbatim>\<open>IHashAlgorithm\<close> and \<^verbatim>\<open>Sha256HashAlgorithm\<close> are not
  among the sources.  The spec describes a streaming hash with \<open>update(bytes)\<close> and
  \<open>finalize()\<close>, whose result is the digest of the concatenation of what was fed to it.
  The object keeps the chunks it absorbed, in call order, and the digest function it
  computes; SHA-256 itself is a parameter.
\<close>

record IHashAlgorithm =
  digest :: "byte list \<Rightarrow> byte list"
  absorbed :: "byte list list"

definition UpdateHash :: "byte list \<Rightarrow> IHashAlgorithm \<Rightarrow> IHashAlgorithm" where
  "UpdateHash data h = h\<lparr>absorbed := absorbed h @ [data]\<rparr>"

definition UpdateHash_string :: "string \<Rightarrow> IHashAlgorithm \<Rightarrow> IHashAlgorithm" where
  "UpdateHash_string str h = UpdateHash (map byte_of_char str) h"

definition Hash :: "IHashAlgorithm \<Rightarrow> byte list" where
  "Hash h = digest h (concat (absorbed h))"


text \<open>
  \<^verbatim>\<open>ISymmetricAlgorithm\<close> and \<^verbatim>\<open>IEncryptionProfile\<close> are interfaces whose
  implementations are not among the sources: an object is the record of its methods.
  \<^verbatim>\<open>Decrypt\<close> takes the base64 text of a ciphertext and may raise.  A profile gives
  the digest of its user-key hash and builds the content-key cipher for a key.
\<close>

record ISymmetricAlgorithm =
  Decrypt :: "string \<Rightarrow> exn + string"

record IEncryptionProfile =
  UserKeyDigest :: "byte list \<Rightarrow> byte list"
  CreateContentKeyAlgorithm :: "KeyType \<Rightarrow> exn + ISymmetricAlgorithm"

definition CreateUserKeyAlgorithm :: "IEncryptionProfile \<Rightarrow> IHashAlgorithm" where
  "CreateUserKeyAlgorithm profile = \<lparr>digest = UserKeyDigest profile, absorbed = []\<rparr>"

text \<open>
  The classes the provider calls and that are not among the sources are parameters:
  the profile registry (\<^verbatim>\<open>EncryptionProfilesManager::GetProfile\<close>, \<open>None\<close> for
  \<^verbatim>\<open>nullptr\<close>), the \<^verbatim>\<open>Certificate\<close> class over a type \<open>'c\<close> of parsed certificates,
  the constructor of \<^verbatim>\<open>DateTime\<close>, and the revocation machinery
  (\<^verbatim>\<open>CrlUpdater\<close>, \<^verbatim>\<open>ThreadTimer\<close>, \<^verbatim>\<open>CertificateRevocationList\<close>) over a type \<open>'s\<close>
  of its state.  The three revocation objects hold pointers to one another, so each of
  their methods acts on the whole state.  A method returning \<open>exn option \<times> 's\<close> raises
  the exception, if there is one, and leaves the state given.

  Modelled from the spec: \<^verbatim>\<open>DateTime\<close> is not among the sources; a date and time is
  a point of the UTC time line, here an integer, and \<^verbatim>\<open>operator<\<close> and
  \<^verbatim>\<open>operator>\<close> compare two points.
\<close>

record ('c, 's) Collaborators =
  GetProfile :: "string \<Rightarrow> IEncryptionProfile option"
  NewCertificate :: "string \<Rightarrow> IEncryptionProfile \<Rightarrow> exn + 'c"
  VerifyCertificate :: "'c \<Rightarrow> 'c \<Rightarrow> exn + bool"
  VerifyMessage :: "'c \<Rightarrow> string \<Rightarrow> string \<Rightarrow> exn + bool"
  NotBeforeDate :: "'c \<Rightarrow> string"
  NotAfterDate :: "'c \<Rightarrow> string"
  DistributionPoints :: "'c \<Rightarrow> string list"
  SerialNumber :: "'c \<Rightarrow> string"
  NewDateTime :: "string \<Rightarrow> exn + int"
  ContainsAnyUrl :: "'s \<Rightarrow> bool"
  UpdateCrlDistributionPoints :: "string list \<Rightarrow> 's \<Rightarrow> 's"
  Update :: "'s \<Rightarrow> exn option \<times> 's"
  Start :: "'s \<Rightarrow> 's"
  RethrowExceptionIfAny :: "'s \<Rightarrow> exn option \<times> 's"
  SerialNumberRevoked :: "'s \<Rightarrow> string \<Rightarrow> bool"

subsection \<open>Revocation and license verification\<close>

text \<open>
  \<^verbatim>\<open>CryptoppCryptoProvider::ProcessRevokation(providerCertificate)\<close>.  No handler
  surrounds its statements: an exception of \<^verbatim>\<open>Update\<close> or of
  \<^verbatim>\<open>RethrowExceptionIfAny\<close> leaves the method at once.
\<close>

definition ProcessRevokation ::
  "('c, 's) Collaborators \<Rightarrow> 'c \<Rightarrow> 's \<Rightarrow> (exn + Status) \<times> 's" where
  "ProcessRevokation env providerCertificate s =
     (let containedAnyUrlBefore = ContainsAnyUrl env s;
          s1 = UpdateCrlDistributionPoints env (DistributionPoints env providerCertificate) s
      in case (if \<not> containedAnyUrlBefore \<and> ContainsAnyUrl env s1
               then (case Update env s1 of
                       (Some ex, s2) \<Rightarrow> (Some ex, s2)
                     | (None, s2) \<Rightarrow> (None, Start env s2))
               else (None, s1)) of
           (Some ex, s3) \<Rightarrow> (Inl ex, s3)
         | (None, s3) \<Rightarrow>
             (case RethrowExceptionIfAny env s3 of
                (Some ex, s4) \<Rightarrow> (Inl ex, s4)
              | (None, s4) \<Rightarrow>
                  if SerialNumberRevoked env s4 (SerialNumber env providerCertificate)
                  then (Inr (mkStatus ErrorOpeningContentProviderCertificateRevoked), s4)
                  else (Inr (mkStatus ErrorCommonSuccess), s4)))"

text \<open>
  The statements inside the outer \<^verbatim>\<open>try\<close> of \<^verbatim>\<open>VerifyLicense\<close>.  The two inner
  handlers catch \<^verbatim>\<open>CryptoPP::BERDecodeErr\<close> only.
\<close>

definition VerifyLicense_try ::
  "('c, 's) Collaborators \<Rightarrow> string \<Rightarrow> ILicense \<Rightarrow> 's \<Rightarrow> (exn + Status) \<times> 's" where
  "VerifyLicense_try env rootCertificateBase64 license s =
     (case GetProfile env (EncryptionProfile (Crypto license)) of
        None \<Rightarrow> (Inr (mkStatus ErrorCommonEncryptionProfileNotFound), s)
      | Some profile \<Rightarrow>
        if rootCertificateBase64 = []
        then (Inr (mkStatus ErrorOpeningNoRootCertificate), s)
        else
         (case NewCertificate env rootCertificateBase64 profile of
            Inl (BERDecodeErr w) \<Rightarrow> (Inr (mkStatusExt ErrorOpeningRootCertificateNotValid w), s)
          | Inl ex \<Rightarrow> (Inl ex, s)
          | Inr rootCertificate \<Rightarrow>
           (case NewCertificate env (SignatureCertificate (Crypto license)) profile of
              Inl (BERDecodeErr w) \<Rightarrow>
                (Inr (mkStatusExt ErrorOpeningContentProviderCertificateNotValid w), s)
            | Inl ex \<Rightarrow> (Inl ex, s)
            | Inr providerCertificate \<Rightarrow>
             (case VerifyCertificate env providerCertificate rootCertificate of
                Inl ex \<Rightarrow> (Inl ex, s)
              | Inr False \<Rightarrow>
                  (Inr (mkStatus ErrorOpeningContentProviderCertificateNotVerified), s)
              | Inr True \<Rightarrow>
               (case ProcessRevokation env providerCertificate s of
                  (Inl ex, s') \<Rightarrow> (Inl ex, s')
                | (Inr res, s') \<Rightarrow>
                  if \<not> IsSuccess res then (Inr res, s')
                  else
                   (case VerifyMessage env providerCertificate (CanonicalContent license)
                           (Signature (Crypto license)) of
                      Inl ex \<Rightarrow> (Inl ex, s')
                    | Inr False \<Rightarrow> (Inr (mkStatus ErrorOpeningLicenseSignatureNotValid), s')
                    | Inr True \<Rightarrow>
                     (case NewDateTime env (NotBeforeDate env providerCertificate) of
                        Inl ex \<Rightarrow> (Inl ex, s')
                      | Inr notBefore \<Rightarrow>
                       (case NewDateTime env (NotAfterDate env providerCertificate) of
                          Inl ex \<Rightarrow> (Inl ex, s')
                        | Inr notAfter \<Rightarrow>
                         (case NewDateTime env
                                 (if Updated license \<noteq> [] then Updated license
                                  else Issued license) of
                            Inl ex \<Rightarrow> (Inl ex, s')
                          | Inr lastUpdated \<Rightarrow>
                            if lastUpdated < notBefore
                            then (Inr (mkStatus
                                         ErrorOpeningContentProviderCertificateNotStarted), s')
                            else if lastUpdated > notAfter
                            then (Inr (mkStatus
                                         ErrorOpeningContentProviderCertificateExpired), s')
                            else (Inr (mkStatus ErrorCommonSuccess), s'))))))))))"

text \<open>
  \<^verbatim>\<open>CryptoppCryptoProvider::VerifyLicense(rootCertificateBase64, license)\<close>: the
  statements above under the outer handler.
\<close>

definition VerifyLicense ::
  "('c, 's) Collaborators \<Rightarrow> string \<Rightarrow> ILicense \<Rightarrow> 's \<Rightarrow> (exn + Status) \<times> 's" where
  "VerifyLicense env rootCertificateBase64 license s =
     (case VerifyLicense_try env rootCertificateBase64 license s of
        (Inl ex, s') \<Rightarrow>
          (catch_cryptopp ErrorOpeningContentProviderCertificateNotVerified ex, s')
      | (Inr res, s') \<Rightarrow> (Inr res, s'))"

subsection \<open>Key derivation\<close>

text \<open>
  \<^verbatim>\<open>CryptoppCryptoProvider::DecryptUserKey(userPassphrase, license, userKey)\<close>.  The
  second component is \<^verbatim>\<open>userKey\<close> after the call.  The assignment to \<^verbatim>\<open>userKey\<close>
  comes before the cipher is built, so every later exit returns the new key.
\<close>

definition DecryptUserKey ::
  "('c, 's) Collaborators \<Rightarrow> string \<Rightarrow> ILicense \<Rightarrow> KeyType \<Rightarrow> (exn + Status) \<times> KeyType" where
  "DecryptUserKey env userPassphrase license userKey =
     (case GetProfile env (EncryptionProfile (Crypto license)) of
        None \<Rightarrow> (Inr (mkStatus ErrorCommonEncryptionProfileNotFound), userKey)
      | Some profile \<Rightarrow>
         (let hashAlgorithm = UpdateHash_string userPassphrase (CreateUserKeyAlgorithm profile);
              userKey' = Hash hashAlgorithm
          in case CreateContentKeyAlgorithm profile userKey' of
               Inl ex \<Rightarrow> (catch_cryptopp ErrorDecryptionUserPassphraseNotValid ex, userKey')
             | Inr contentKeyAlgorithm \<Rightarrow>
                (case Decrypt contentKeyAlgorithm (UserKeyCheck (Crypto license)) of
                   Inl ex \<Rightarrow> (catch_cryptopp ErrorDecryptionUserPassphraseNotValid ex, userKey')
                 | Inr ident \<Rightarrow>
                     if \<not> EqualsUtf8 ident (Id_license license)
                     then (Inr (mkStatus ErrorDecryptionUserPassphraseNotValid), userKey')
                     else (Inr (mkStatus ErrorCommonSuccess), userKey'))))"

text \<open>
  \<^verbatim>\<open>CryptoppCryptoProvider::DecryptContentKey(userKey, license, contentKey)\<close>.  The
  second component is \<^verbatim>\<open>contentKey\<close> after the call; \<^verbatim>\<open>assign\<close> copies the
  characters of the decrypted string as unsigned bytes.
\<close>

definition DecryptContentKey ::
  "('c, 's) Collaborators \<Rightarrow> KeyType \<Rightarrow> ILicense \<Rightarrow> KeyType \<Rightarrow> (exn + Status) \<times> KeyType" where
  "DecryptContentKey env userKey license contentKey =
     (case GetProfile env (EncryptionProfile (Crypto license)) of
        None \<Rightarrow> (Inr (mkStatus ErrorCommonEncryptionProfileNotFound), contentKey)
      | Some profile \<Rightarrow>
         (case CreateContentKeyAlgorithm profile userKey of
            Inl ex \<Rightarrow> (catch_cryptopp ErrorDecryptionLicenseEncrypted ex, contentKey)
          | Inr contentKeyAlgorithm \<Rightarrow>
             (case Decrypt contentKeyAlgorithm (ContentKey (Crypto license)) of
                Inl ex \<Rightarrow> (catch_cryptopp ErrorDecryptionLicenseEncrypted ex, contentKey)
              | Inr decryptedContentKey \<Rightarrow>
                  (Inr (mkStatus ErrorCommonSuccess),
                   map byte_of_char decryptedContentKey))))"

text \<open>
  What the content-key cipher of a profile, keyed by \<open>key\<close>, makes of a ciphertext:
  the two calls \<^verbatim>\<open>profile->CreateContentKeyAlgorithm(key)\<close> and
  \<^verbatim>\<open>->Decrypt(data)\<close> in a row.  It is used to state what the two methods above do.
\<close>

definition decrypt_with :: "IEncryptionProfile \<Rightarrow> KeyType \<Rightarrow> string \<Rightarrow> exn + string" where
  "decrypt_with profile key data =
     (case CreateContentKeyAlgorithm profile key of
        Inl ex \<Rightarrow> Inl ex
      | Inr algorithm \<Rightarrow> Decrypt algorithm data)"

subsection \<open>File hash\<close>








text \<open>
  The cutting of a byte sequence into pieces of \<open>n\<close> bytes, the last piece being what
  remains: the chunks in which the loop is expected to feed a stream to the hash.
\<close>

fun chunks :: "nat \<Rightarrow> 'a list \<Rightarrow> 'a list list" where
  "chunks n xs = (if n = 0 \<or> xs = [] then [] else take n xs # chunks n (drop n xs))"

declare chunks.simps [simp del]


subsection \<open>Service creation\<close>

text \<open>
  \<^verbatim>\<open>LcpServiceCreator::CreateLcpService\<close>.  A pointer is \<open>None\<close> for \<^verbatim>\<open>nullptr\<close> or the
  address it holds.  The memory maps the address of an \<^verbatim>\<open>ILcpService *\<close> variable to
  the object that variable points to.

  Modelled from the spec: the class \<^verbatim>\<open>LcpService\<close> is not among the sources; a newly
  constructed service is the record of the four arguments of its constructor.
\<close>

type_synonym address = nat

record LcpService =
  m_rootCertificate :: string
  m_netProvider :: "address option"
  m_storageProvider :: "address option"
  m_fileSystemProvider :: "address option"

definition CreateLcpService ::
  "string \<Rightarrow> address option \<Rightarrow> address option \<Rightarrow> address option \<Rightarrow> address option
     \<Rightarrow> (address \<rightharpoonup> LcpService) \<Rightarrow> (exn + Status) \<times> (address \<rightharpoonup> LcpService)" where
  "CreateLcpService rootCert net storage fileSystem lcpService mem =
     (case lcpService of
        None \<Rightarrow> (Inl (InvalidArgument ''lcpService is nullptr''), mem)
      | Some a \<Rightarrow>
          (let status = mkStatus ErrorCommonSuccess
           in (Inr status,
               mem(a \<mapsto> \<lparr>m_rootCertificate = rootCert, m_netProvider = net,
                          m_storageProvider = storage, m_fileSystemProvider = fileSystem\<rparr>))))"

subsection \<open>An instance of the collaborators\<close>

text \<open>
  Modelled from the spec: \<^verbatim>\<open>CertificateRevocationList\<close>, \<^verbatim>\<open>CrlUpdater\<close> and
  \<^verbatim>\<open>ThreadTimer\<close> are not among the sources.  Following the spec, the updater keeps
  the distribution-point URLs it knows without duplicates; an update fetches the list
  served at every known URL and merges its serial numbers, a failure at one URL does
  not keep the others from being fetched, and the first failure is raised when all have
  been tried; the timer keeps the exception captured on its thread, and
  \<^verbatim>\<open>RethrowExceptionIfAny\<close> raises what is captured and clears it.  The network is a
  function from a URL to the serial numbers served there, or to the failure of the
  fetch.
\<close>

record RevocationState =
  crlUrls :: "string list"
  revokedSerials :: "string list"
  timerStarted :: bool
  timerException :: "exn option"

definition crl_ContainsAnyUrl :: "RevocationState \<Rightarrow> bool" where
  "crl_ContainsAnyUrl s = (crlUrls s \<noteq> [])"

fun merge_urls :: "string list \<Rightarrow> string list \<Rightarrow> string list" where
  "merge_urls known [] = known"
| "merge_urls known (u # us) = merge_urls (if u \<in> set known then known else known @ [u]) us"

definition crl_UpdateCrlDistributionPoints ::
  "string list \<Rightarrow> RevocationState \<Rightarrow> RevocationState" where
  "crl_UpdateCrlDistributionPoints urls s = s\<lparr>crlUrls := merge_urls (crlUrls s) urls\<rparr>"

fun crl_fetch ::
  "(string \<Rightarrow> exn + string list) \<Rightarrow> string list \<Rightarrow> exn option \<times> string list
     \<Rightarrow> exn option \<times> string list" where
  "crl_fetch net [] acc = acc"
| "crl_fetch net (u # us) (failure, serials) =
     (case net u of
        Inl ex \<Rightarrow> crl_fetch net us (if failure = None then Some ex else failure, serials)
      | Inr crl \<Rightarrow> crl_fetch net us (failure, serials @ crl))"

definition crl_Update ::
  "(string \<Rightarrow> exn + string list) \<Rightarrow> RevocationState \<Rightarrow> exn option \<times> RevocationState" where
  "crl_Update net s =
     (case crl_fetch net (crlUrls s) (None, revokedSerials s) of
        (failure, serials) \<Rightarrow> (failure, s\<lparr>revokedSerials := serials\<rparr>))"

definition crl_Start :: "RevocationState \<Rightarrow> RevocationState" where
  "crl_Start s = s\<lparr>timerStarted := True\<rparr>"

definition crl_RethrowExceptionIfAny :: "RevocationState \<Rightarrow> exn option \<times> RevocationState" where
  "crl_RethrowExceptionIfAny s = (timerException s, s\<lparr>timerException := None\<rparr>)"

definition crl_SerialNumberRevoked :: "RevocationState \<Rightarrow> string \<Rightarrow> bool" where
  "crl_SerialNumberRevoked s serialNumber = (serialNumber \<in> set (revokedSerials s))"

text \<open>The revocation machinery above in the place of that of given collaborators.\<close>

definition with_crl ::
  "(string \<Rightarrow> exn + string list) \<Rightarrow> ('c, RevocationState) Collaborators
     \<Rightarrow> ('c, RevocationState) Collaborators" where
  "with_crl net env =
     env\<lparr>ContainsAnyUrl := crl_ContainsAnyUrl,
         UpdateCrlDistributionPoints := crl_UpdateCrlDistributionPoints,
         Update := crl_Update net,
         Start := crl_Start,
         RethrowExceptionIfAny := crl_RethrowExceptionIfAny,
         SerialNumberRevoked := crl_SerialNumberRevoked\<rparr>"

text \<open>
  Stand-ins for the cryptography, to run the provider on concrete inputs.  A test
  certificate names its subject and its issuer and is verified by comparing names; a
  test signature of a message is the signer's name followed by the message; a test date
  is a string of decimal digits; the test digest reverses its input; a test ciphertext
  is the key followed by the plaintext, decrypts to garbage under another key, and
  cannot be decrypted when it is empty.
\<close>

record TestCertificate =
  subject :: string
  issuer :: string
  serial :: string
  validFrom :: string
  validUntil :: string
  crlPoints :: "string list"

definition test_NewCertificate ::
  "(string \<Rightarrow> TestCertificate option) \<Rightarrow> string \<Rightarrow> IEncryptionProfile \<Rightarrow> exn + TestCertificate" where
  "test_NewCertificate store base64 profile =
     (case store base64 of
        None \<Rightarrow> Inl (BERDecodeErr ''BER decode error'')
      | Some c \<Rightarrow> Inr c)"

definition test_VerifyCertificate :: "TestCertificate \<Rightarrow> TestCertificate \<Rightarrow> exn + bool" where
  "test_VerifyCertificate c parent = Inr (issuer c = subject parent)"

definition test_VerifyMessage :: "TestCertificate \<Rightarrow> string \<Rightarrow> string \<Rightarrow> exn + bool" where
  "test_VerifyMessage c message sig = Inr (sig = subject c @ message)"

fun decimal :: "string \<Rightarrow> nat \<Rightarrow> nat option" where
  "decimal [] acc = Some acc"
| "decimal (c # cs) acc =
     (if c \<in> set ''0123456789'' then decimal cs (10 * acc + (of_char c - 48)) else None)"

definition test_NewDateTime :: "string \<Rightarrow> exn + int" where
  "test_NewDateTime str =
     (case decimal str 0 of
        None \<Rightarrow> Inl (OtherException ''not a date'')
      | Some n \<Rightarrow> Inr (int n))"

definition test_Decrypt :: "KeyType \<Rightarrow> string \<Rightarrow> exn + string" where
  "test_Decrypt key data =
     (if data = [] then Inl (CryptoppException ''invalid ciphertext'')
      else if take (length key) (map byte_of_char data) = key then Inr (drop (length key) data)
      else Inr (rev data))"

definition test_profile :: IEncryptionProfile where
  "test_profile =
     \<lparr>UserKeyDigest = rev,
      CreateContentKeyAlgorithm =
        (\<lambda>key. if key = [] then Inl (CryptoppException ''invalid key length'')
               else Inr \<lparr>Decrypt = test_Decrypt key\<rparr>)\<rparr>"

definition test_env ::
  "(string \<Rightarrow> TestCertificate option) \<Rightarrow> (string \<Rightarrow> exn + string list)
     \<Rightarrow> (TestCertificate, RevocationState) Collaborators" where
  "test_env store net =
     \<lparr>GetProfile = (\<lambda>uri. if uri = ''basic'' then Some test_profile else None),
      NewCertificate = test_NewCertificate store,
      VerifyCertificate = test_VerifyCertificate,
      VerifyMessage = test_VerifyMessage,
      NotBeforeDate = validFrom,
      NotAfterDate = validUntil,
      DistributionPoints = crlPoints,
      SerialNumber = serial,
      NewDateTime = test_NewDateTime,
      ContainsAnyUrl = crl_ContainsAnyUrl,
      UpdateCrlDistributionPoints = crl_UpdateCrlDistributionPoints,
      Update = crl_Update net,
      Start = crl_Start,
      RethrowExceptionIfAny = crl_RethrowExceptionIfAny,
      SerialNumberRevoked = crl_SerialNumberRevoked\<rparr>"

text \<open>
  The test data: a root, a provider certificate issued by it and valid from 2020 to
  2025 with one distribution point, a second root that did not issue it, and a license
  of 2022 signed by the provider, whose user key check and content key are encrypted
  under the test digest of the passphrase \<open>pw\<close>.
\<close>

definition test_root :: TestCertificate where
  "test_root = \<lparr>subject = ''R'', issuer = ''R'', serial = ''1'', validFrom = ''2000'',
                validUntil = ''2100'', crlPoints = []\<rparr>"

definition test_provider :: TestCertificate where
  "test_provider = \<lparr>subject = ''P'', issuer = ''R'', serial = ''7'', validFrom = ''2020'',
                    validUntil = ''2025'', crlPoints = [''u'']\<rparr>"

definition test_other_root :: TestCertificate where
  "test_other_root = \<lparr>subject = ''X'', issuer = ''X'', serial = ''2'', validFrom = ''2000'',
                      validUntil = ''2100'', crlPoints = []\<rparr>"

definition test_store :: "string \<Rightarrow> TestCertificate option" where
  "test_store base64 =
     (if base64 = ''root'' then Some test_root
      else if base64 = ''provider'' then Some test_provider
      else if base64 = ''other'' then Some test_other_root
      else None)"

definition test_crypto :: ICrypto where
  "test_crypto = \<lparr>EncryptionProfile = ''basic'', SignatureCertificate = ''provider'',
                  Signature = ''Pbook'', UserKeyCheck = ''wpid'', ContentKey = ''wpck''\<rparr>"

definition test_license :: ILicense where
  "test_license = \<lparr>Id_license = ''id'', Issued = ''2022'', Updated = [],
                   CanonicalContent = ''book'', Crypto = test_crypto\<rparr>"

definition net_empty :: "string \<Rightarrow> exn + string list" where
  "net_empty url = Inr []"

definition net_revoking :: "string \<Rightarrow> exn + string list" where
  "net_revoking url = Inr [''7'']"

definition net_down :: "string \<Rightarrow> exn + string list" where
  "net_down url = Inl (OtherException ''network unreachable'')"

definition fresh_state :: RevocationState where
  "fresh_state = \<lparr>crlUrls = [], revokedSerials = [], timerStarted = False,
                  timerException = None\<rparr>"

text \<open>
  A profile whose cipher is left by an exception that is no \<^verbatim>\<open>CryptoPP::Exception\<close>,
  as \<^verbatim>\<open>std::bad_alloc\<close> is, and the test collaborators with that profile for every
  profile name.
\<close>

definition failing_profile :: IEncryptionProfile where
  "failing_profile =
     \<lparr>UserKeyDigest = rev,
      CreateContentKeyAlgorithm =
        (\<lambda>key. Inr \<lparr>Decrypt = (\<lambda>data. Inl (OtherException ''std::bad_alloc''))\<rparr>)\<rparr>"

definition failing_env :: "(TestCertificate, RevocationState) Collaborators" where
  "failing_env = (test_env test_store net_empty)\<lparr>GetProfile := (\<lambda>uri. Some failing_profile)\<rparr>"

text \<open>
  The state after a first verification of the test license, and the same with the serial
  number of the test provider revoked.
\<close>

definition known_state :: RevocationState where
  "known_state = \<lparr>crlUrls = [''u''], revokedSerials = [], timerStarted = True,
                  timerException = None\<rparr>"

definition revoked_state :: RevocationState where
  "revoked_state = \<lparr>crlUrls = [''u''], revokedSerials = [''7''], timerStarted = True,
                    timerException = None\<rparr>"

section \<open>Properties\<close>

subsection \<open>Hexadecimal conversion\<close>

lemma nibble_cases:
  assumes "(k::nat) < 16"
  shows "k \<in> {0, 1, 2, 3, 4, 5, 6, 7, 8, 9, 10, 11, 12, 13, 14, 15}"
proof -
  have "k \<in> {..<16}"
    using assms by simp
  also have "{..<16::nat} = {0, 1, 2, 3, 4, 5, 6, 7, 8, 9, 10, 11, 12, 13, 14, 15}"
    by (simp add: lessThan_nat_numeral lessThan_Suc insert_commute)
  finally show ?thesis .
qed

lemma hex_value_digit: "n < 16 \<Longrightarrow> hex_value (hex_digit n) = Some n"
  by (drule nibble_cases) (elim insertE emptyE; simp add: hex_value_def hex_digit_def)

lemma hex_value_upper: "n < 16 \<Longrightarrow> hex_value (hex_upper (hex_digit n)) = Some n"
  by (drule nibble_cases)
    (elim insertE emptyE; simp add: hex_value_def hex_digit_def hex_upper_def)

lemma hex_digit_lower: "n < 16 \<Longrightarrow> hex_digit n \<in> set ''0123456789abcdef''"
  by (drule nibble_cases) (elim insertE emptyE; simp add: hex_digit_def)

lemma unat_byte_div16: "unat (b :: byte) div 16 < 16"
  using unsigned_less [of b, where 'a = nat] by simp

lemma hex_decode_encode: "hex_decode (hex_encode bs) = Inr bs"
  by (induction bs) (simp_all add: hex_value_digit unat_byte_div16)

lemma hex_decode_upper: "hex_decode (map hex_upper (hex_encode bs)) = Inr bs"
  by (induction bs) (simp_all add: hex_value_upper unat_byte_div16)

lemma length_hex_encode: "length (hex_encode bs) = 2 * length bs"
  by (induction bs) simp_all

lemma set_hex_encode: "set (hex_encode bs) \<subseteq> set ''0123456789abcdef''"
proof (induction bs)
  case Nil
  show ?case by simp
next
  case (Cons b bs)
  have "hex_digit (unat b div 16) \<in> set ''0123456789abcdef''"
    by (rule hex_digit_lower) (rule unat_byte_div16)
  moreover have "hex_digit (unat b mod 16) \<in> set ''0123456789abcdef''"
    by (rule hex_digit_lower) simp
  ultimately show ?case
    using Cons.IH by (simp only: hex_encode.simps set_simps insert_subset)
qed

text \<open>
  C5.  For every byte sequence \<open>b\<close>, \<^verbatim>\<open>ConvertRawToHex\<close> succeeds with a string of
  exactly \<open>2 * |b|\<close> characters, all of them lowercase hexadecimal digits (so there is no
  separator); \<^verbatim>\<open>ConvertHexToRaw\<close> of that string succeeds with \<open>b\<close>, and so does
  \<^verbatim>\<open>ConvertHexToRaw\<close> of the same string in upper case; \<^verbatim>\<open>ConvertHexToRaw\<close> of a string
  of odd length returns the status \<^verbatim>\<open>ErrorDecryptionCommonError\<close> and leaves its
  out-parameter alone.
\<close>

theorem hex_round_trip:
  "ConvertRawToHex b hex0 = (Inr (mkStatus ErrorCommonSuccess), hex_encode b)
   \<and> ConvertHexToRaw (hex_encode b) data0 = (Inr (mkStatus ErrorCommonSuccess), b)
   \<and> length (hex_encode b) = 2 * length b
   \<and> set (hex_encode b) \<subseteq> set ''0123456789abcdef''
   \<and> ConvertHexToRaw (map hex_upper (hex_encode b)) data0
       = (Inr (mkStatus ErrorCommonSuccess), b)
   \<and> (odd (length hex) \<longrightarrow>
        (\<exists>st. ConvertHexToRaw hex data0 = (Inr st, data0)
              \<and> Code st = ErrorDecryptionCommonError))"
proof -
  have "ConvertRawToHex b hex0 = (Inr (mkStatus ErrorCommonSuccess), hex_encode b)"
    by (simp add: ConvertRawToHex_def RawToHex_def)
  moreover have "ConvertHexToRaw (hex_encode b) data0 = (Inr (mkStatus ErrorCommonSuccess), b)"
    by (simp add: ConvertHexToRaw_def HexToRaw_def length_hex_encode hex_decode_encode)
  moreover have "ConvertHexToRaw (map hex_upper (hex_encode b)) data0
       = (Inr (mkStatus ErrorCommonSuccess), b)"
    by (simp add: ConvertHexToRaw_def HexToRaw_def length_hex_encode hex_decode_upper)
  moreover have "odd (length hex) \<longrightarrow>
        (\<exists>st. ConvertHexToRaw hex data0 = (Inr st, data0) \<and> Code st = ErrorDecryptionCommonError)"
    by (simp add: ConvertHexToRaw_def HexToRaw_def catch_cryptopp_def mkStatusExt_def)
  ultimately show ?thesis
    using length_hex_encode [of b] set_hex_encode [of b] by blast
qed

theorem hex_round_trip_witness:
  "ConvertRawToHex [0, 255, 16] [] = (Inr (mkStatus ErrorCommonSuccess), ''00ff10'')
   \<and> ConvertHexToRaw ''00ff10'' [7] = (Inr (mkStatus ErrorCommonSuccess), [0, 255, 16])
   \<and> ConvertHexToRaw ''00FF10'' [7] = (Inr (mkStatus ErrorCommonSuccess), [0, 255, 16])
   \<and> odd (length ''00f'')
   \<and> (\<exists>st. ConvertHexToRaw ''00f'' [7] = (Inr st, [7]) \<and> Code st = ErrorDecryptionCommonError)"
proof -
  have e: "hex_encode [0, 255, 16] = ''00ff10''"
    by (simp add: hex_digit_def)
  have u: "map hex_upper ''00ff10'' = ''00FF10''"
    by (simp add: hex_upper_def)
  show ?thesis
    using hex_round_trip [of "[0, 255, 16]" "[]" "[7]" "''00f''"]
    unfolding e u by simp
qed

subsection \<open>Service creation\<close>

text \<open>
  C9.  With a null \<^verbatim>\<open>lcpService\<close>, \<^verbatim>\<open>CreateLcpService\<close> returns no status: it is left
  by \<^verbatim>\<open>std::invalid_argument\<close>, whatever the other arguments, and the memory is as it
  was.  With a pointer that is not null it returns \<^verbatim>\<open>ErrorCommonSuccess\<close>, and the
  pointed-to variable holds the service constructed from the four arguments.
\<close>

theorem CreateLcpService_contract:
  "CreateLcpService rootCert net storage fileSystem None mem
     = (Inl (InvalidArgument ''lcpService is nullptr''), mem)
   \<and> CreateLcpService rootCert net storage fileSystem (Some a) mem
     = (Inr (mkStatus ErrorCommonSuccess),
        mem(a \<mapsto> \<lparr>m_rootCertificate = rootCert, m_netProvider = net,
                   m_storageProvider = storage, m_fileSystemProvider = fileSystem\<rparr>))"
  by (simp add: CreateLcpService_def)

subsection \<open>Key derivation\<close>

lemma DecryptContentKey_known:
  assumes "GetProfile env (EncryptionProfile (Crypto license)) = Some profile"
  shows "DecryptContentKey env userKey license contentKey =
     (case decrypt_with profile userKey (ContentKey (Crypto license)) of
        Inl ex \<Rightarrow> (catch_cryptopp ErrorDecryptionLicenseEncrypted ex, contentKey)
      | Inr plain \<Rightarrow> (Inr (mkStatus ErrorCommonSuccess), map byte_of_char plain))"
  using assms by (simp add: DecryptContentKey_def decrypt_with_def split: sum.splits)

lemma DecryptUserKey_known:
  assumes "GetProfile env (EncryptionProfile (Crypto license)) = Some profile"
    and "key = UserKeyDigest profile (map byte_of_char userPassphrase)"
  shows "DecryptUserKey env userPassphrase license userKey =
     (case decrypt_with profile key (UserKeyCheck (Crypto license)) of
        Inl ex \<Rightarrow> (catch_cryptopp ErrorDecryptionUserPassphraseNotValid ex, key)
      | Inr ident \<Rightarrow>
          (Inr (mkStatus (if ident = Id_license license then ErrorCommonSuccess
                             else ErrorDecryptionUserPassphraseNotValid)), key))"
  using assms
  by (simp add: DecryptUserKey_def decrypt_with_def Let_def Hash_def UpdateHash_string_def
      UpdateHash_def CreateUserKeyAlgorithm_def EqualsUtf8_def split: sum.splits)

lemma test_profile_known:
  "GetProfile (test_env store net) (EncryptionProfile (Crypto test_license)) = Some test_profile"
  by (simp add: test_env_def test_crypto_def test_license_def)

lemma test_key: "UserKeyDigest test_profile (map byte_of_char ''pw'') = [119, 112]"
  by (simp add: test_profile_def byte_of_char_def)

lemma test_key_wrong: "UserKeyDigest test_profile (map byte_of_char ''no'') = [111, 110]"
  by (simp add: test_profile_def byte_of_char_def)

lemma test_key_empty: "UserKeyDigest test_profile (map byte_of_char []) = []"
  by (simp add: test_profile_def)

lemma test_check_right:
  "decrypt_with test_profile [119, 112] (UserKeyCheck (Crypto test_license)) = Inr ''id''"
  by (simp add: decrypt_with_def test_profile_def test_license_def test_crypto_def
      test_Decrypt_def byte_of_char_def)

lemma test_check_wrong:
  "decrypt_with test_profile [111, 110] (UserKeyCheck (Crypto test_license)) = Inr ''dipw''"
  by (simp add: decrypt_with_def test_profile_def test_license_def test_crypto_def
      test_Decrypt_def byte_of_char_def)

lemma test_check_raises:
  "decrypt_with test_profile [] data = Inl (CryptoppException ''invalid key length'')"
  by (simp add: decrypt_with_def test_profile_def)

lemma failing_profile_known:
  "GetProfile failing_env (EncryptionProfile (Crypto license)) = Some failing_profile"
  by (simp add: failing_env_def)

lemma failing_decrypt:
  "decrypt_with failing_profile key data = Inl (OtherException ''std::bad_alloc'')"
  by (simp add: decrypt_with_def failing_profile_def)

lemma failing_key: "UserKeyDigest failing_profile (map byte_of_char ''pw'') = [119, 112]"
  by (simp add: failing_profile_def byte_of_char_def)

text \<open>
  C4, as the code has it.  For a license whose profile is known, \<^verbatim>\<open>DecryptContentKey\<close>
  applies the profile's content-key cipher, keyed by the user key given, to
  \<^verbatim>\<open>license.crypto.contentKey\<close>.  When the cipher returns a plaintext, the status is
  \<^verbatim>\<open>ErrorCommonSuccess\<close> and the out-parameter holds the bytes of the plaintext.  When
  the cipher raises a Crypto++ exception, the status is \<^verbatim>\<open>ErrorDecryptionLicenseEncrypted\<close>
  with the message of the exception, and the out-parameter keeps the value it had.  Any
  other exception of the cipher leaves the method: no status is returned, and the
  out-parameter keeps the value it had.
\<close>

theorem DecryptContentKey_result:
  assumes "GetProfile env (EncryptionProfile (Crypto license)) = Some profile"
  shows "(\<forall>plain. decrypt_with profile userKey (ContentKey (Crypto license)) = Inr plain \<longrightarrow>
            DecryptContentKey env userKey license contentKey =
              (Inr (mkStatus ErrorCommonSuccess), map byte_of_char plain))
       \<and> (\<forall>ex. decrypt_with profile userKey (ContentKey (Crypto license)) = Inl ex
                \<and> is_cryptopp ex \<longrightarrow>
            DecryptContentKey env userKey license contentKey =
              (Inr (mkStatusExt ErrorDecryptionLicenseEncrypted (GetWhat ex)), contentKey))
       \<and> (\<forall>ex. decrypt_with profile userKey (ContentKey (Crypto license)) = Inl ex
                \<and> \<not> is_cryptopp ex \<longrightarrow>
            DecryptContentKey env userKey license contentKey = (Inl ex, contentKey))"
  by (simp add: DecryptContentKey_known [OF assms] catch_cryptopp_def)

theorem DecryptContentKey_result_witness:
  "GetProfile (test_env test_store net_empty) (EncryptionProfile (Crypto test_license)) = Some test_profile
   \<and> decrypt_with test_profile [119, 112] (ContentKey (Crypto test_license)) = Inr ''ck''
   \<and> DecryptContentKey (test_env test_store net_empty) [119, 112] test_license [1, 2]
       = (Inr (mkStatus ErrorCommonSuccess), [99, 107])
   \<and> decrypt_with test_profile [] (ContentKey (Crypto test_license))
       = Inl (CryptoppException ''invalid key length'')
   \<and> is_cryptopp (CryptoppException ''invalid key length'')
   \<and> DecryptContentKey (test_env test_store net_empty) [] test_license [1, 2]
       = (Inr (mkStatusExt ErrorDecryptionLicenseEncrypted ''invalid key length''), [1, 2])
   \<and> GetProfile failing_env (EncryptionProfile (Crypto test_license)) = Some failing_profile
   \<and> decrypt_with failing_profile [119, 112] (ContentKey (Crypto test_license))
       = Inl (OtherException ''std::bad_alloc'')
   \<and> \<not> is_cryptopp (OtherException ''std::bad_alloc'')
   \<and> DecryptContentKey failing_env [119, 112] test_license [1, 2]
       = (Inl (OtherException ''std::bad_alloc''), [1, 2])"
proof -
  have d: "decrypt_with test_profile [119, 112] (ContentKey (Crypto test_license)) = Inr ''ck''"
    by (simp add: decrypt_with_def test_profile_def test_license_def test_crypto_def
        test_Decrypt_def byte_of_char_def)
  have d': "decrypt_with test_profile [] (ContentKey (Crypto test_license))
       = Inl (CryptoppException ''invalid key length'')"
    by (simp add: decrypt_with_def test_profile_def)
  show ?thesis
    using DecryptContentKey_result [OF test_profile_known, of "[119, 112]" test_store net_empty "[1, 2]"]
      DecryptContentKey_result [OF test_profile_known, of "[]" test_store net_empty "[1, 2]"]
      DecryptContentKey_result [OF failing_profile_known, of "[119, 112]" test_license "[1, 2]"]
      test_profile_known [of test_store net_empty] d d' failing_profile_known [of test_license]
      failing_decrypt [of "[119, 112]" "ContentKey (Crypto test_license)"]
    by (simp add: byte_of_char_def)
qed

text \<open>
  The claim C4 as it was stated gives \<^verbatim>\<open>ErrorDecryptionLicenseEncrypted\<close> for any
  failure of the cipher.  The handler of the method catches \<^verbatim>\<open>CryptoPP::Exception\<close>
  only: with a cipher that fails by another exception the method returns no status.
\<close>

theorem DecryptContentKey_counterexample:
  "GetProfile failing_env (EncryptionProfile (Crypto test_license)) = Some failing_profile
   \<and> decrypt_with failing_profile [119, 112] (ContentKey (Crypto test_license))
       = Inl (OtherException ''std::bad_alloc'')
   \<and> DecryptContentKey failing_env [119, 112] test_license [1, 2]
       = (Inl (OtherException ''std::bad_alloc''), [1, 2])"
  by (simp add: failing_profile_known failing_decrypt DecryptContentKey_known [OF failing_profile_known]
      catch_cryptopp_def)

text \<open>
  C3, as the code has it.  For a license whose profile is known, let \<open>key\<close> be the
  profile's user-key digest of the bytes of the passphrase.  \<^verbatim>\<open>DecryptUserKey\<close> returns
  \<^verbatim>\<open>ErrorCommonSuccess\<close> exactly when the profile's content-key cipher, keyed by
  \<open>key\<close>, decrypts \<^verbatim>\<open>license.crypto.userKeyCheck\<close> to the license id.  A decrypted value
  that differs from the id gives \<^verbatim>\<open>ErrorDecryptionUserPassphraseNotValid\<close> with an empty
  extension; a Crypto++ exception of the cipher gives the same status code with the
  message of the exception as extension; so the two agree in the status code, and are
  the same status only when the message is empty.  Any other exception of the cipher
  leaves the method, and no status is returned.
\<close>

theorem DecryptUserKey_status:
  assumes "GetProfile env (EncryptionProfile (Crypto license)) = Some profile"
    and "key = UserKeyDigest profile (map byte_of_char userPassphrase)"
  shows "(fst (DecryptUserKey env userPassphrase license userKey) = Inr (mkStatus ErrorCommonSuccess)
           \<longleftrightarrow> decrypt_with profile key (UserKeyCheck (Crypto license)) = Inr (Id_license license))
       \<and> (\<forall>ident. decrypt_with profile key (UserKeyCheck (Crypto license)) = Inr ident
                   \<and> ident \<noteq> Id_license license \<longrightarrow>
            fst (DecryptUserKey env userPassphrase license userKey)
              = Inr (mkStatus ErrorDecryptionUserPassphraseNotValid))
       \<and> (\<forall>ex. decrypt_with profile key (UserKeyCheck (Crypto license)) = Inl ex
                \<and> is_cryptopp ex \<longrightarrow>
            fst (DecryptUserKey env userPassphrase license userKey)
              = Inr (mkStatusExt ErrorDecryptionUserPassphraseNotValid (GetWhat ex)))
       \<and> (\<forall>ex. decrypt_with profile key (UserKeyCheck (Crypto license)) = Inl ex
                \<and> \<not> is_cryptopp ex \<longrightarrow>
            fst (DecryptUserKey env userPassphrase license userKey) = Inl ex)
       \<and> (\<forall>w. Code (mkStatusExt ErrorDecryptionUserPassphraseNotValid w)
                  = Code (mkStatus ErrorDecryptionUserPassphraseNotValid)
              \<and> (mkStatusExt ErrorDecryptionUserPassphraseNotValid w
                    = mkStatus ErrorDecryptionUserPassphraseNotValid \<longleftrightarrow> w = []))"
  by (auto simp: DecryptUserKey_known [OF assms] catch_cryptopp_def mkStatus_def mkStatusExt_def
      split: sum.splits)

theorem DecryptUserKey_status_witness:
  "GetProfile (test_env test_store net_empty) (EncryptionProfile (Crypto test_license)) = Some test_profile
   \<and> decrypt_with test_profile [119, 112] (UserKeyCheck (Crypto test_license)) = Inr (Id_license test_license)
   \<and> fst (DecryptUserKey (test_env test_store net_empty) ''pw'' test_license [1])
       = Inr (mkStatus ErrorCommonSuccess)
   \<and> decrypt_with test_profile [111, 110] (UserKeyCheck (Crypto test_license)) = Inr ''dipw''
   \<and> ''dipw'' \<noteq> Id_license test_license
   \<and> fst (DecryptUserKey (test_env test_store net_empty) ''no'' test_license [1])
       = Inr (mkStatus ErrorDecryptionUserPassphraseNotValid)
   \<and> decrypt_with test_profile [] (UserKeyCheck (Crypto test_license))
       = Inl (CryptoppException ''invalid key length'')
   \<and> is_cryptopp (CryptoppException ''invalid key length'')
   \<and> fst (DecryptUserKey (test_env test_store net_empty) [] test_license [1])
       = Inr (mkStatusExt ErrorDecryptionUserPassphraseNotValid ''invalid key length'')
   \<and> decrypt_with failing_profile [119, 112] (UserKeyCheck (Crypto test_license))
       = Inl (OtherException ''std::bad_alloc'')
   \<and> \<not> is_cryptopp (OtherException ''std::bad_alloc'')
   \<and> fst (DecryptUserKey failing_env ''pw'' test_license [1])
       = Inl (OtherException ''std::bad_alloc'')"
proof -
  have i: "Id_license test_license = ''id''"
    by (simp add: test_license_def)
  show ?thesis
    using DecryptUserKey_status [OF test_profile_known test_key [symmetric], of test_store net_empty "[1]"]
      DecryptUserKey_status [OF test_profile_known test_key_wrong [symmetric], of test_store net_empty "[1]"]
      DecryptUserKey_status [OF test_profile_known test_key_empty [symmetric], of test_store net_empty "[1]"]
      DecryptUserKey_status [OF failing_profile_known failing_key [symmetric], of test_license "[1]"]
      test_profile_known [of test_store net_empty] test_check_right test_check_wrong
      test_check_raises [of "UserKeyCheck (Crypto test_license)"]
      failing_decrypt [of "[119, 112]" "UserKeyCheck (Crypto test_license)"]
    unfolding i by simp
qed

text \<open>
  The claim C3 as it was stated gives one status for every cipher exception and calls a
  wrong passphrase and a corrupted check value indistinguishable.  A cipher that fails
  by an exception that is no \<^verbatim>\<open>CryptoPP::Exception\<close> makes the method return no
  status; and the wrong passphrase \<open>no\<close> and an emptied check value give two statuses
  that differ in their extension.
\<close>

theorem DecryptUserKey_status_counterexample:
  "decrypt_with failing_profile [119, 112] (UserKeyCheck (Crypto test_license))
       = Inl (OtherException ''std::bad_alloc'')
   \<and> DecryptUserKey failing_env ''pw'' test_license [1]
       = (Inl (OtherException ''std::bad_alloc''), [119, 112])
   \<and> fst (DecryptUserKey (test_env test_store net_empty) ''no'' test_license [1])
       = Inr (mkStatus ErrorDecryptionUserPassphraseNotValid)
   \<and> fst (DecryptUserKey (test_env test_store net_empty) ''pw''
             (test_license\<lparr>Crypto := test_crypto\<lparr>UserKeyCheck := []\<rparr>\<rparr>) [1])
       = Inr (mkStatusExt ErrorDecryptionUserPassphraseNotValid ''invalid ciphertext'')
   \<and> mkStatus ErrorDecryptionUserPassphraseNotValid
       \<noteq> mkStatusExt ErrorDecryptionUserPassphraseNotValid ''invalid ciphertext''"
proof -
  have p: "GetProfile (test_env test_store net_empty)
       (EncryptionProfile (Crypto (test_license\<lparr>Crypto := test_crypto\<lparr>UserKeyCheck := []\<rparr>\<rparr>)))
       = Some test_profile"
    by (simp add: test_env_def test_crypto_def)
  have c: "decrypt_with test_profile [119, 112] []
       = Inl (CryptoppException ''invalid ciphertext'')"
    by (simp add: decrypt_with_def test_profile_def test_Decrypt_def)
  have i: "Id_license test_license = ''id''"
    by (simp add: test_license_def)
  show ?thesis
    by (simp add: failing_decrypt
        DecryptUserKey_known [OF failing_profile_known failing_key [symmetric]]
        DecryptUserKey_known [OF test_profile_known test_key_wrong [symmetric]]
        DecryptUserKey_known [OF p test_key [symmetric]]
        test_check_wrong c i catch_cryptopp_def mkStatus_def mkStatusExt_def)
qed

text \<open>
  C10.  \<^verbatim>\<open>DecryptUserKey\<close> is not atomic in its out-parameter.  For a license whose
  profile is known, \<^verbatim>\<open>userKey\<close> holds the profile's digest of the bytes of the
  passphrase after the call, whatever the outcome; in particular, when the decrypted
  check value differs from the license id, the call returns
  \<^verbatim>\<open>ErrorDecryptionUserPassphraseNotValid\<close> together with that derived key.  With an
  unknown profile the call returns \<^verbatim>\<open>ErrorCommonEncryptionProfileNotFound\<close> and
  \<^verbatim>\<open>userKey\<close> keeps its value.
\<close>

theorem DecryptUserKey_overwrites:
  assumes "key = UserKeyDigest profile (map byte_of_char userPassphrase)"
  shows "(GetProfile env (EncryptionProfile (Crypto license)) = Some profile \<longrightarrow>
       snd (DecryptUserKey env userPassphrase license userKey) = key
     \<and> (\<forall>ident. decrypt_with profile key (UserKeyCheck (Crypto license)) = Inr ident
                 \<and> ident \<noteq> Id_license license \<longrightarrow>
          DecryptUserKey env userPassphrase license userKey
            = (Inr (mkStatus ErrorDecryptionUserPassphraseNotValid), key)))
   \<and> (GetProfile env (EncryptionProfile (Crypto license)) = None \<longrightarrow>
        DecryptUserKey env userPassphrase license userKey
          = (Inr (mkStatus ErrorCommonEncryptionProfileNotFound), userKey))"
proof (intro conjI allI impI)
  assume p: "GetProfile env (EncryptionProfile (Crypto license)) = Some profile"
  show "snd (DecryptUserKey env userPassphrase license userKey) = key"
    by (simp add: DecryptUserKey_known [OF p assms] split: sum.splits)
  fix ident
  assume "decrypt_with profile key (UserKeyCheck (Crypto license)) = Inr ident
                 \<and> ident \<noteq> Id_license license"
  then show "DecryptUserKey env userPassphrase license userKey
            = (Inr (mkStatus ErrorDecryptionUserPassphraseNotValid), key)"
    by (simp add: DecryptUserKey_known [OF p assms])
next
  assume "GetProfile env (EncryptionProfile (Crypto license)) = None"
  then show "DecryptUserKey env userPassphrase license userKey
          = (Inr (mkStatus ErrorCommonEncryptionProfileNotFound), userKey)"
    by (simp add: DecryptUserKey_def)
qed

theorem DecryptUserKey_overwrites_witness:
  "[111, 110] = UserKeyDigest test_profile (map byte_of_char ''no'')
   \<and> GetProfile (test_env test_store net_empty) (EncryptionProfile (Crypto test_license)) = Some test_profile
   \<and> decrypt_with test_profile [111, 110] (UserKeyCheck (Crypto test_license)) = Inr ''dipw''
   \<and> ''dipw'' \<noteq> Id_license test_license
   \<and> DecryptUserKey (test_env test_store net_empty) ''no'' test_license [1]
       = (Inr (mkStatus ErrorDecryptionUserPassphraseNotValid), [111, 110])
   \<and> GetProfile (test_env test_store net_empty)
        (EncryptionProfile (Crypto (test_license\<lparr>Crypto := test_crypto\<lparr>EncryptionProfile := ''other''\<rparr>\<rparr>))) = None
   \<and> DecryptUserKey (test_env test_store net_empty) ''no''
        (test_license\<lparr>Crypto := test_crypto\<lparr>EncryptionProfile := ''other''\<rparr>\<rparr>) [1]
       = (Inr (mkStatus ErrorCommonEncryptionProfileNotFound), [1])"
proof -
  have i: "Id_license test_license = ''id''"
    by (simp add: test_license_def)
  have n: "GetProfile (test_env test_store net_empty)
        (EncryptionProfile (Crypto (test_license\<lparr>Crypto := test_crypto\<lparr>EncryptionProfile := ''other''\<rparr>\<rparr>))) = None"
    by (simp add: test_env_def)
  show ?thesis
    using DecryptUserKey_overwrites [OF test_key_wrong [symmetric],
        of "test_env test_store net_empty" test_license "[1]"]
      DecryptUserKey_overwrites [OF test_key_wrong [symmetric], of "test_env test_store net_empty"
        "test_license\<lparr>Crypto := test_crypto\<lparr>EncryptionProfile := ''other''\<rparr>\<rparr>" "[1]"]
      test_profile_known [of test_store net_empty] test_check_wrong n test_key_wrong
    unfolding i by simp
qed

subsection \<open>License verification\<close>

lemma VerifyLicense_try_certified:
  assumes "GetProfile env (EncryptionProfile (Crypto license)) = Some profile"
    and "rootCertificateBase64 \<noteq> []"
    and "NewCertificate env rootCertificateBase64 profile = Inr rootCertificate"
    and "NewCertificate env (SignatureCertificate (Crypto license)) profile = Inr providerCertificate"
    and "VerifyCertificate env providerCertificate rootCertificate = Inr True"
  shows "VerifyLicense_try env rootCertificateBase64 license s =
     (case ProcessRevokation env providerCertificate s of
        (Inl ex, s') \<Rightarrow> (Inl ex, s')
      | (Inr res, s') \<Rightarrow>
          if \<not> IsSuccess res then (Inr res, s')
          else
           (case VerifyMessage env providerCertificate (CanonicalContent license)
                   (Signature (Crypto license)) of
              Inl ex \<Rightarrow> (Inl ex, s')
            | Inr False \<Rightarrow> (Inr (mkStatus ErrorOpeningLicenseSignatureNotValid), s')
            | Inr True \<Rightarrow>
             (case NewDateTime env (NotBeforeDate env providerCertificate) of
                Inl ex \<Rightarrow> (Inl ex, s')
              | Inr notBefore \<Rightarrow>
               (case NewDateTime env (NotAfterDate env providerCertificate) of
                  Inl ex \<Rightarrow> (Inl ex, s')
                | Inr notAfter \<Rightarrow>
                 (case NewDateTime env
                         (if Updated license \<noteq> [] then Updated license
                          else Issued license) of
                    Inl ex \<Rightarrow> (Inl ex, s')
                  | Inr lastUpdated \<Rightarrow>
                    if lastUpdated < notBefore
                    then (Inr (mkStatus
                                 ErrorOpeningContentProviderCertificateNotStarted), s')
                    else if lastUpdated > notAfter
                    then (Inr (mkStatus
                                 ErrorOpeningContentProviderCertificateExpired), s')
                    else (Inr (mkStatus ErrorCommonSuccess), s'))))))"
  using assms by (simp add: VerifyLicense_try_def)

lemma VerifyLicense_try_dated:
  assumes "GetProfile env (EncryptionProfile (Crypto license)) = Some profile"
    and "rootCertificateBase64 \<noteq> []"
    and "NewCertificate env rootCertificateBase64 profile = Inr rootCertificate"
    and "NewCertificate env (SignatureCertificate (Crypto license)) profile = Inr providerCertificate"
    and "VerifyCertificate env providerCertificate rootCertificate = Inr True"
    and "ProcessRevokation env providerCertificate s = (Inr res, s')"
    and "IsSuccess res"
    and "VerifyMessage env providerCertificate (CanonicalContent license)
           (Signature (Crypto license)) = Inr True"
    and "NewDateTime env (NotBeforeDate env providerCertificate) = Inr notBefore"
    and "NewDateTime env (NotAfterDate env providerCertificate) = Inr notAfter"
    and "NewDateTime env (if Updated license \<noteq> [] then Updated license else Issued license)
           = Inr lastUpdated"
  shows "VerifyLicense env rootCertificateBase64 license s =
     (Inr (mkStatus
        (if lastUpdated < notBefore then ErrorOpeningContentProviderCertificateNotStarted
         else if notAfter < lastUpdated then ErrorOpeningContentProviderCertificateExpired
         else ErrorCommonSuccess)), s')"
proof -
  have "VerifyLicense_try env rootCertificateBase64 license s =
     (Inr (mkStatus
        (if lastUpdated < notBefore then ErrorOpeningContentProviderCertificateNotStarted
         else if notAfter < lastUpdated then ErrorOpeningContentProviderCertificateExpired
         else ErrorCommonSuccess)), s')"
    unfolding VerifyLicense_try_certified [OF assms(1-5)]
    using assms(6-11) by simp
  then show ?thesis
    by (simp add: VerifyLicense_def)
qed

lemma test_env_sel:
  "GetProfile (test_env store net) uri = (if uri = ''basic'' then Some test_profile else None)"
  "NewCertificate (test_env store net) = test_NewCertificate store"
  "VerifyCertificate (test_env store net) = test_VerifyCertificate"
  "VerifyMessage (test_env store net) = test_VerifyMessage"
  "NotBeforeDate (test_env store net) = validFrom"
  "NotAfterDate (test_env store net) = validUntil"
  "DistributionPoints (test_env store net) = crlPoints"
  "SerialNumber (test_env store net) = serial"
  "NewDateTime (test_env store net) = test_NewDateTime"
  "ContainsAnyUrl (test_env store net) = crl_ContainsAnyUrl"
  "UpdateCrlDistributionPoints (test_env store net) = crl_UpdateCrlDistributionPoints"
  "Update (test_env store net) = crl_Update net"
  "Start (test_env store net) = crl_Start"
  "RethrowExceptionIfAny (test_env store net) = crl_RethrowExceptionIfAny"
  "SerialNumberRevoked (test_env store net) = crl_SerialNumberRevoked"
  by (simp_all add: test_env_def)

lemma test_license_sel:
  "EncryptionProfile (Crypto test_license) = ''basic''"
  "SignatureCertificate (Crypto test_license) = ''provider''"
  "Signature (Crypto test_license) = ''Pbook''"
  "CanonicalContent test_license = ''book''"
  "Issued test_license = ''2022''"
  "Updated test_license = []"
  "Id_license test_license = ''id''"
  "EncryptionProfile test_crypto = ''basic''"
  "SignatureCertificate test_crypto = ''provider''"
  by (simp_all add: test_license_def test_crypto_def)

lemma test_certificates:
  "test_NewCertificate test_store ''root'' p = Inr test_root"
  "test_NewCertificate test_store ''other'' p = Inr test_other_root"
  "test_NewCertificate test_store ''provider'' p = Inr test_provider"
  "test_NewCertificate test_store ''junk'' p = Inl (BERDecodeErr ''BER decode error'')"
  "test_VerifyCertificate test_provider test_root = Inr True"
  "test_VerifyCertificate test_provider test_other_root = Inr False"
  "test_VerifyMessage test_provider ''book'' ''Pbook'' = Inr True"
  "validFrom test_provider = ''2020''"
  "validUntil test_provider = ''2025''"
  "crlPoints test_provider = [''u'']"
  "serial test_provider = ''7''"
  by (simp_all add: test_NewCertificate_def test_store_def test_VerifyCertificate_def
      test_VerifyMessage_def test_provider_def test_root_def test_other_root_def)

lemma test_dates:
  "test_NewDateTime ''2019'' = Inr 2019"
  "test_NewDateTime ''2020'' = Inr 2020"
  "test_NewDateTime ''2022'' = Inr 2022"
  "test_NewDateTime ''2025'' = Inr 2025"
  "test_NewDateTime ''2026'' = Inr 2026"
  by (simp_all add: test_NewDateTime_def)


lemma test_revocation_first:
  "ProcessRevokation (test_env test_store net_empty) test_provider fresh_state
     = (Inr (mkStatus ErrorCommonSuccess),
        known_state)"
  by (simp add: ProcessRevokation_def test_env_sel test_certificates fresh_state_def known_state_def
      crl_ContainsAnyUrl_def crl_UpdateCrlDistributionPoints_def crl_Update_def net_empty_def
      crl_Start_def crl_RethrowExceptionIfAny_def crl_SerialNumberRevoked_def)

lemma test_first_pass:
  "ProcessRevokation (test_env test_store net_empty) test_provider fresh_state
     = (Inr (mkStatus ErrorCommonSuccess), known_state)"
  "IsSuccess (mkStatus ErrorCommonSuccess)"
  by (simp_all add: test_revocation_first IsSuccess_def mkStatus_def)




text \<open>
  C2.  Let the certificate and signature checks of \<^verbatim>\<open>VerifyLicense\<close> pass, and let
  \<open>lastUpdated\<close> be the date of \<^verbatim>\<open>license.updated\<close> when that string is not empty and
  of \<^verbatim>\<open>license.issued\<close> otherwise.  If \<open>lastUpdated\<close> is before \<open>notBefore\<close>, the
  result is \<^verbatim>\<open>ErrorOpeningContentProviderCertificateNotStarted\<close>; if not, and it is
  after \<open>notAfter\<close>, the result is \<^verbatim>\<open>ErrorOpeningContentProviderCertificateExpired\<close>;
  every \<open>lastUpdated\<close> from \<open>notBefore\<close> to \<open>notAfter\<close>, both ends included, gives
  \<^verbatim>\<open>ErrorCommonSuccess\<close>.  For a certificate whose window is not empty, the two
  failures exclude each other and both ends of the window are accepted.
\<close>

theorem VerifyLicense_validity_window:
  assumes "GetProfile env (EncryptionProfile (Crypto license)) = Some profile"
    and "root \<noteq> []"
    and "NewCertificate env root profile = Inr rc"
    and "NewCertificate env (SignatureCertificate (Crypto license)) profile = Inr pc"
    and "VerifyCertificate env pc rc = Inr True"
    and "ProcessRevokation env pc s = (Inr res, s')"
    and "IsSuccess res"
    and "VerifyMessage env pc (CanonicalContent license) (Signature (Crypto license)) = Inr True"
    and "NewDateTime env (NotBeforeDate env pc) = Inr notBefore"
    and "NewDateTime env (NotAfterDate env pc) = Inr notAfter"
    and u: "Updated license \<noteq> [] \<Longrightarrow> NewDateTime env (Updated license) = Inr lastUpdated"
    and i: "Updated license = [] \<Longrightarrow> NewDateTime env (Issued license) = Inr lastUpdated"
  shows "(lastUpdated < notBefore \<longrightarrow>
            VerifyLicense env root license s
              = (Inr (mkStatus ErrorOpeningContentProviderCertificateNotStarted), s'))
       \<and> (notBefore \<le> lastUpdated \<and> notAfter < lastUpdated \<longrightarrow>
            VerifyLicense env root license s
              = (Inr (mkStatus ErrorOpeningContentProviderCertificateExpired), s'))
       \<and> (notBefore \<le> lastUpdated \<and> lastUpdated \<le> notAfter \<longrightarrow>
            VerifyLicense env root license s = (Inr (mkStatus ErrorCommonSuccess), s'))
       \<and> (notBefore \<le> notAfter \<longrightarrow>
            (notAfter < lastUpdated \<longrightarrow>
               VerifyLicense env root license s
                 = (Inr (mkStatus ErrorOpeningContentProviderCertificateExpired), s'))
          \<and> (lastUpdated = notBefore \<or> lastUpdated = notAfter \<longrightarrow>
               VerifyLicense env root license s = (Inr (mkStatus ErrorCommonSuccess), s')))"
proof -
  have d: "NewDateTime env (if Updated license \<noteq> [] then Updated license else Issued license)
             = Inr lastUpdated"
    using u i by simp
  show ?thesis
    unfolding VerifyLicense_try_dated [OF assms(1-10) d] by auto
qed

theorem VerifyLicense_validity_window_witness:
  "VerifyLicense (test_env test_store net_empty) ''root'' test_license fresh_state
     = (Inr (mkStatus ErrorCommonSuccess), known_state)
   \<and> VerifyLicense (test_env test_store net_empty) ''root''
        (test_license\<lparr>Updated := ''2019''\<rparr>) fresh_state
     = (Inr (mkStatus ErrorOpeningContentProviderCertificateNotStarted), known_state)
   \<and> VerifyLicense (test_env test_store net_empty) ''root''
        (test_license\<lparr>Updated := ''2020''\<rparr>) fresh_state
     = (Inr (mkStatus ErrorCommonSuccess), known_state)
   \<and> VerifyLicense (test_env test_store net_empty) ''root''
        (test_license\<lparr>Updated := ''2025''\<rparr>) fresh_state
     = (Inr (mkStatus ErrorCommonSuccess), known_state)
   \<and> VerifyLicense (test_env test_store net_empty) ''root''
        (test_license\<lparr>Updated := ''2026''\<rparr>) fresh_state
     = (Inr (mkStatus ErrorOpeningContentProviderCertificateExpired), known_state)"
proof -
  have w: "VerifyLicense (test_env test_store net_empty) ''root''
        (test_license\<lparr>Updated := upd\<rparr>) fresh_state
     = (Inr (mkStatus (if lu < 2020 then ErrorOpeningContentProviderCertificateNotStarted
                       else if 2025 < lu then ErrorOpeningContentProviderCertificateExpired
                       else ErrorCommonSuccess)), known_state)"
    if "upd \<noteq> [] \<Longrightarrow> test_NewDateTime upd = Inr lu" "upd = [] \<Longrightarrow> lu = 2022" for upd lu
    using VerifyLicense_validity_window [where env = "test_env test_store net_empty"
        and license = "test_license\<lparr>Updated := upd\<rparr>" and profile = test_profile
        and root = "''root''" and rc = test_root and pc = test_provider and s = fresh_state
        and res = "mkStatus ErrorCommonSuccess" and s' = known_state and notBefore = 2020
        and notAfter = 2025 and lastUpdated = lu] that
    by (simp add: test_env_sel test_license_sel test_certificates test_dates test_first_pass
        test_license_def [symmetric])
  have e: "test_license\<lparr>Updated := []\<rparr> = test_license"
    by (simp add: test_license_def)
  show ?thesis
    using w [of "[]" 2022] w [of "''2019''" 2019] w [of "''2020''" 2020] w [of "''2025''" 2025]
      w [of "''2026''" 2026]
    by (simp add: test_dates e)
qed

subsection \<open>Revocation\<close>

lemma ProcessRevokation_update_raises:
  assumes "s1 = UpdateCrlDistributionPoints env (DistributionPoints env cert) s"
    and "\<not> ContainsAnyUrl env s" and "ContainsAnyUrl env s1"
    and "Update env s1 = (Some ex, s2)"
  shows "ProcessRevokation env cert s = (Inl ex, s2)"
  using assms by (simp add: ProcessRevokation_def)

lemma ProcessRevokation_first_time:
  assumes "s1 = UpdateCrlDistributionPoints env (DistributionPoints env cert) s"
    and "\<not> ContainsAnyUrl env s" and "ContainsAnyUrl env s1"
    and "Update env s1 = (None, s2)"
  shows "ProcessRevokation env cert s =
     (case RethrowExceptionIfAny env (Start env s2) of
        (Some ex, s4) \<Rightarrow> (Inl ex, s4)
      | (None, s4) \<Rightarrow>
          (Inr (mkStatus (if SerialNumberRevoked env s4 (SerialNumber env cert)
                          then ErrorOpeningContentProviderCertificateRevoked
                          else ErrorCommonSuccess)), s4))"
  using assms by (simp add: ProcessRevokation_def split: prod.splits option.splits)

lemma ProcessRevokation_later:
  assumes "s1 = UpdateCrlDistributionPoints env (DistributionPoints env cert) s"
    and "ContainsAnyUrl env s \<or> \<not> ContainsAnyUrl env s1"
  shows "ProcessRevokation env cert s =
     (case RethrowExceptionIfAny env s1 of
        (Some ex, s4) \<Rightarrow> (Inl ex, s4)
      | (None, s4) \<Rightarrow>
          (Inr (mkStatus (if SerialNumberRevoked env s4 (SerialNumber env cert)
                          then ErrorOpeningContentProviderCertificateRevoked
                          else ErrorCommonSuccess)), s4))"
  using assms by (auto simp: ProcessRevokation_def split: prod.splits option.splits)

lemma ProcessRevokation_before_rethrow:
  assumes "s1 = UpdateCrlDistributionPoints env (DistributionPoints env cert) s"
    and "first \<longleftrightarrow> \<not> ContainsAnyUrl env s \<and> ContainsAnyUrl env s1"
    and "(first \<and> (\<exists>s2. Update env s1 = (None, s2) \<and> s3 = Start env s2)) \<or> (\<not> first \<and> s3 = s1)"
  shows "ProcessRevokation env cert s =
     (case RethrowExceptionIfAny env s3 of
        (Some ex, s4) \<Rightarrow> (Inl ex, s4)
      | (None, s4) \<Rightarrow>
          (Inr (mkStatus (if SerialNumberRevoked env s4 (SerialNumber env cert)
                          then ErrorOpeningContentProviderCertificateRevoked
                          else ErrorCommonSuccess)), s4))"
proof (cases first)
  case True
  with assms(3) obtain s2 where u: "Update env s1 = (None, s2)" and s3: "s3 = Start env s2"
    by auto
  from True assms(2) have "\<not> ContainsAnyUrl env s" "ContainsAnyUrl env s1"
    by simp_all
  then show ?thesis
    unfolding s3 by (rule ProcessRevokation_first_time [OF assms(1) _ _ u])
next
  case False
  with assms(3) have s3: "s3 = s1"
    by simp
  from False assms(2) have "ContainsAnyUrl env s \<or> \<not> ContainsAnyUrl env s1"
    by auto
  then show ?thesis
    unfolding s3 by (rule ProcessRevokation_later [OF assms(1)])
qed

lemma VerifyLicense_revocation_result:
  assumes "GetProfile env (EncryptionProfile (Crypto license)) = Some profile"
    and "root \<noteq> []"
    and "NewCertificate env root profile = Inr rc"
    and "NewCertificate env (SignatureCertificate (Crypto license)) profile = Inr pc"
    and "VerifyCertificate env pc rc = Inr True"
  shows "ProcessRevokation env pc s = (Inl ex, s') \<Longrightarrow>
           VerifyLicense env root license s
             = (catch_cryptopp ErrorOpeningContentProviderCertificateNotVerified ex, s')"
    and "ProcessRevokation env pc s = (Inr res, s') \<Longrightarrow> \<not> IsSuccess res \<Longrightarrow>
           VerifyLicense env root license s = (Inr res, s')"
  by (simp_all add: VerifyLicense_def VerifyLicense_try_certified [OF assms])

lemmas crl_defs = crl_ContainsAnyUrl_def crl_UpdateCrlDistributionPoints_def crl_Update_def
  crl_Start_def crl_RethrowExceptionIfAny_def crl_SerialNumberRevoked_def

lemma test_pending_revoked: "ProcessRevokation (test_env test_store net_empty) test_provider
     (revoked_state\<lparr>timerException := Some (CryptoppException ''CRL fetch failed'')\<rparr>)
  = (Inl (CryptoppException ''CRL fetch failed''), revoked_state)"
  by (simp add: ProcessRevokation_def test_env_sel test_certificates revoked_state_def
      crl_defs)

lemma test_pending_revoked_verify: "VerifyLicense (test_env test_store net_empty) ''root'' test_license
     (revoked_state\<lparr>timerException := Some (CryptoppException ''CRL fetch failed'')\<rparr>)
  = (Inr (mkStatusExt ErrorOpeningContentProviderCertificateNotVerified ''CRL fetch failed''), revoked_state)"
  by (simp add: VerifyLicense_def VerifyLicense_try_def test_env_sel test_license_sel
      test_certificates test_pending_revoked catch_cryptopp_def)

lemma with_crl_sel:
  "ContainsAnyUrl (with_crl net env) = crl_ContainsAnyUrl"
  "UpdateCrlDistributionPoints (with_crl net env) = crl_UpdateCrlDistributionPoints"
  "Update (with_crl net env) = crl_Update net"
  "Start (with_crl net env) = crl_Start"
  "RethrowExceptionIfAny (with_crl net env) = crl_RethrowExceptionIfAny"
  "SerialNumberRevoked (with_crl net env) = crl_SerialNumberRevoked"
  "DistributionPoints (with_crl net env) = DistributionPoints env"
  "SerialNumber (with_crl net env) = SerialNumber env"
  by (simp_all add: with_crl_def)

lemma merge_urls_nonempty: "known \<noteq> [] \<Longrightarrow> merge_urls known urls \<noteq> []"
  by (induction urls arbitrary: known) simp_all

lemma ProcessRevokation_pending:
  assumes "timerException t = Some ex" and "crlUrls t \<noteq> []"
  shows "ProcessRevokation (with_crl net env) c t
     = (Inl ex, t\<lparr>crlUrls := merge_urls (crlUrls t) (DistributionPoints env c),
                  timerException := None\<rparr>)"
  using assms
  by (simp add: ProcessRevokation_def with_crl_sel crl_defs merge_urls_nonempty)

lemma ProcessRevokation_clear:
  assumes "timerException t = None" and "crlUrls t \<noteq> []"
  shows "\<exists>res t'. ProcessRevokation (with_crl net env) c t = (Inr res, t')"
  using assms
  by (simp add: ProcessRevokation_def with_crl_sel crl_defs merge_urls_nonempty Let_def)

lemma with_crl_test_env: "with_crl net (test_env store net') = test_env store net"
  by (simp add: with_crl_def test_env_def)

text \<open>
  C7, as the code has it.  \<^verbatim>\<open>ProcessRevokation\<close> first notes whether the updater knows
  a URL, then merges the distribution points of the certificate.  Exactly when it knew
  none before the merge and knows one after it, \<^verbatim>\<open>Update\<close> runs once, and the timer is
  started when that update returns; an exception of the update leaves
  \<^verbatim>\<open>ProcessRevokation\<close> with the timer not started.  Then
  \<^verbatim>\<open>RethrowExceptionIfAny\<close> runs, and an exception it raises leaves
  \<^verbatim>\<open>ProcessRevokation\<close> as well.  When neither raises, the result is
  \<^verbatim>\<open>ErrorOpeningContentProviderCertificateRevoked\<close> if the revocation list holds the
  serial number of the certificate, and \<^verbatim>\<open>ErrorCommonSuccess\<close> otherwise; and
  \<^verbatim>\<open>VerifyLicense\<close> returns the revoked status that \<^verbatim>\<open>ProcessRevokation\<close> returned.
\<close>

theorem ProcessRevokation_steps:
  assumes "s1 = UpdateCrlDistributionPoints env (DistributionPoints env cert) s"
    and "first \<longleftrightarrow> \<not> ContainsAnyUrl env s \<and> ContainsAnyUrl env s1"
  shows "(\<forall>ex s2. first \<and> Update env s1 = (Some ex, s2) \<longrightarrow>
            ProcessRevokation env cert s = (Inl ex, s2))
       \<and> (\<forall>s3. (first \<and> (\<exists>s2. Update env s1 = (None, s2) \<and> s3 = Start env s2))
                \<or> (\<not> first \<and> s3 = s1) \<longrightarrow>
            (\<forall>ex s4. RethrowExceptionIfAny env s3 = (Some ex, s4) \<longrightarrow>
               ProcessRevokation env cert s = (Inl ex, s4))
          \<and> (\<forall>s4. RethrowExceptionIfAny env s3 = (None, s4) \<longrightarrow>
               ProcessRevokation env cert s
                 = (Inr (mkStatus (if SerialNumberRevoked env s4 (SerialNumber env cert)
                                   then ErrorOpeningContentProviderCertificateRevoked
                                   else ErrorCommonSuccess)), s4)))
       \<and> (\<forall>s4.
            GetProfile env (EncryptionProfile (Crypto license)) = Some profile \<and> root \<noteq> []
            \<and> NewCertificate env root profile = Inr rc
            \<and> NewCertificate env (SignatureCertificate (Crypto license)) profile = Inr cert
            \<and> VerifyCertificate env cert rc = Inr True
            \<and> ProcessRevokation env cert s
                 = (Inr (mkStatus ErrorOpeningContentProviderCertificateRevoked), s4) \<longrightarrow>
            VerifyLicense env root license s
              = (Inr (mkStatus ErrorOpeningContentProviderCertificateRevoked), s4))"
proof (intro conjI allI impI)
  fix ex s2
  assume "first \<and> Update env s1 = (Some ex, s2)"
  with assms(2) show "ProcessRevokation env cert s = (Inl ex, s2)"
    by (intro ProcessRevokation_update_raises [OF assms(1)]) simp_all
next
  fix s3 ex s4
  assume b: "(first \<and> (\<exists>s2. Update env s1 = (None, s2) \<and> s3 = Start env s2))
                \<or> (\<not> first \<and> s3 = s1)"
    and "RethrowExceptionIfAny env s3 = (Some ex, s4)"
  then show "ProcessRevokation env cert s = (Inl ex, s4)"
    by (simp add: ProcessRevokation_before_rethrow [OF assms b])
next
  fix s3 s4
  assume b: "(first \<and> (\<exists>s2. Update env s1 = (None, s2) \<and> s3 = Start env s2))
                \<or> (\<not> first \<and> s3 = s1)"
    and "RethrowExceptionIfAny env s3 = (None, s4)"
  then show "ProcessRevokation env cert s
                 = (Inr (mkStatus (if SerialNumberRevoked env s4 (SerialNumber env cert)
                                   then ErrorOpeningContentProviderCertificateRevoked
                                   else ErrorCommonSuccess)), s4)"
    by (simp add: ProcessRevokation_before_rethrow [OF assms b])
next
  fix s4
  assume a: "GetProfile env (EncryptionProfile (Crypto license)) = Some profile \<and> root \<noteq> []
            \<and> NewCertificate env root profile = Inr rc
            \<and> NewCertificate env (SignatureCertificate (Crypto license)) profile = Inr cert
            \<and> VerifyCertificate env cert rc = Inr True
            \<and> ProcessRevokation env cert s
                 = (Inr (mkStatus ErrorOpeningContentProviderCertificateRevoked), s4)"
  then have h: "GetProfile env (EncryptionProfile (Crypto license)) = Some profile" "root \<noteq> []"
    "NewCertificate env root profile = Inr rc"
    "NewCertificate env (SignatureCertificate (Crypto license)) profile = Inr cert"
    "VerifyCertificate env cert rc = Inr True"
    and r: "ProcessRevokation env cert s
                 = (Inr (mkStatus ErrorOpeningContentProviderCertificateRevoked), s4)"
    by simp_all
  have "\<not> IsSuccess (mkStatus ErrorOpeningContentProviderCertificateRevoked)"
    by (simp add: IsSuccess_def mkStatus_def)
  then show "VerifyLicense env root license s
              = (Inr (mkStatus ErrorOpeningContentProviderCertificateRevoked), s4)"
    by (rule VerifyLicense_revocation_result(2) [OF h r])
qed

theorem ProcessRevokation_steps_witness:
  "ProcessRevokation (test_env test_store net_revoking) test_provider fresh_state
     = (Inr (mkStatus ErrorOpeningContentProviderCertificateRevoked), revoked_state)
   \<and> VerifyLicense (test_env test_store net_revoking) ''root'' test_license fresh_state
     = (Inr (mkStatus ErrorOpeningContentProviderCertificateRevoked), revoked_state)
   \<and> ProcessRevokation (test_env test_store net_down) test_provider fresh_state
     = (Inl (OtherException ''network unreachable''),
        \<lparr>crlUrls = [''u''], revokedSerials = [], timerStarted = False, timerException = None\<rparr>)
   \<and> ProcessRevokation (test_env test_store net_revoking) test_provider known_state
     = (Inr (mkStatus ErrorCommonSuccess), known_state)
   \<and> ProcessRevokation (test_env test_store net_revoking) test_provider
        (known_state\<lparr>timerException := Some (OtherException ''timer'')\<rparr>)
     = (Inl (OtherException ''timer''), known_state)"
  using
    ProcessRevokation_steps [OF refl refl, where env = "test_env test_store net_revoking"
      and cert = test_provider and s = fresh_state and license = test_license
      and profile = test_profile and root = "''root''" and rc = test_root]
    ProcessRevokation_steps [OF refl refl, where env = "test_env test_store net_down"
      and cert = test_provider and s = fresh_state and license = test_license
      and profile = test_profile and root = "''root''" and rc = test_root]
    ProcessRevokation_steps [OF refl refl, where env = "test_env test_store net_revoking"
      and cert = test_provider and s = known_state and license = test_license
      and profile = test_profile and root = "''root''" and rc = test_root]
    ProcessRevokation_steps [OF refl refl, where env = "test_env test_store net_revoking"
      and cert = test_provider
      and s = "known_state\<lparr>timerException := Some (OtherException ''timer'')\<rparr>"
      and license = test_license and profile = test_profile and root = "''root''"
      and rc = test_root]
  by (simp add: test_env_sel test_license_sel test_certificates fresh_state_def known_state_def
      revoked_state_def crl_defs net_revoking_def net_down_def)

text \<open>
  The claim C7 as it was stated leaves the rethrow out: with the serial number of the
  certificate in the revocation list and an exception captured by the timer,
  \<^verbatim>\<open>ProcessRevokation\<close> returns no status, and \<^verbatim>\<open>VerifyLicense\<close> answers
  \<^verbatim>\<open>ErrorOpeningContentProviderCertificateNotVerified\<close>, not revoked.
\<close>

theorem ProcessRevokation_rethrow_counterexample:
  "crl_SerialNumberRevoked
      (revoked_state\<lparr>timerException := Some (CryptoppException ''CRL fetch failed'')\<rparr>)
      (SerialNumber (test_env test_store net_empty) test_provider)
   \<and> ProcessRevokation (test_env test_store net_empty) test_provider
        (revoked_state\<lparr>timerException := Some (CryptoppException ''CRL fetch failed'')\<rparr>)
     = (Inl (CryptoppException ''CRL fetch failed''), revoked_state)
   \<and> VerifyLicense (test_env test_store net_empty) ''root'' test_license
        (revoked_state\<lparr>timerException := Some (CryptoppException ''CRL fetch failed'')\<rparr>)
     = (Inr (mkStatusExt ErrorOpeningContentProviderCertificateNotVerified ''CRL fetch failed''),
        revoked_state)
   \<and> Code (mkStatusExt ErrorOpeningContentProviderCertificateNotVerified ''CRL fetch failed'')
       \<noteq> ErrorOpeningContentProviderCertificateRevoked"
  by (simp add: test_pending_revoked test_pending_revoked_verify) (simp add: test_env_sel test_certificates revoked_state_def crl_defs mkStatusExt_def)

text \<open>
  C8, as the code has it.  A failure of the revocation machinery that surfaces during
  \<^verbatim>\<open>VerifyLicense\<close> is fatal to that call, whether or not the serial number is in the
  revocation list.  Let the certificate checks pass.  An exception of the first,
  synchronous update, and an exception that \<^verbatim>\<open>RethrowExceptionIfAny\<close> raises, both end
  \<^verbatim>\<open>VerifyLicense\<close>: with \<^verbatim>\<open>ErrorOpeningContentProviderCertificateNotVerified\<close> and
  the message of the exception when it is a Crypto++ exception, and by leaving
  \<^verbatim>\<open>VerifyLicense\<close> as that exception otherwise.  With the timer of the spec, an
  exception captured on the timer thread is rethrown by the next \<^verbatim>\<open>ProcessRevokation\<close>
  and cleared, so that the call after it returns a status.
\<close>

theorem VerifyLicense_crl_failure:
  assumes "GetProfile env (EncryptionProfile (Crypto license)) = Some profile"
    and "root \<noteq> []"
    and "NewCertificate env root profile = Inr rc"
    and "NewCertificate env (SignatureCertificate (Crypto license)) profile = Inr pc"
    and "VerifyCertificate env pc rc = Inr True"
    and "s1 = UpdateCrlDistributionPoints env (DistributionPoints env pc) s"
    and "first \<longleftrightarrow> \<not> ContainsAnyUrl env s \<and> ContainsAnyUrl env s1"
  shows "(\<forall>ex s2. first \<and> Update env s1 = (Some ex, s2) \<longrightarrow>
            VerifyLicense env root license s
              = (if is_cryptopp ex
                 then Inr (mkStatusExt ErrorOpeningContentProviderCertificateNotVerified
                             (GetWhat ex))
                 else Inl ex, s2))
       \<and> (\<forall>s3 ex s4.
            ((first \<and> (\<exists>s2. Update env s1 = (None, s2) \<and> s3 = Start env s2))
               \<or> (\<not> first \<and> s3 = s1))
            \<and> RethrowExceptionIfAny env s3 = (Some ex, s4) \<longrightarrow>
            VerifyLicense env root license s
              = (if is_cryptopp ex
                 then Inr (mkStatusExt ErrorOpeningContentProviderCertificateNotVerified
                             (GetWhat ex))
                 else Inl ex, s4))
       \<and> (\<forall>ex. timerException t = Some ex \<and> crlUrls t \<noteq> [] \<longrightarrow>
            (\<exists>t'. ProcessRevokation (with_crl net env') c t = (Inl ex, t')
                  \<and> timerException t' = None
                  \<and> (\<exists>res t''. ProcessRevokation (with_crl net env') c t' = (Inr res, t''))))"
proof (intro conjI allI impI)
  fix ex s2
  assume a: "first \<and> Update env s1 = (Some ex, s2)"
  with assms(7) have "ProcessRevokation env pc s = (Inl ex, s2)"
    by (intro ProcessRevokation_update_raises [OF assms(6)]) simp_all
  then show "VerifyLicense env root license s
              = (if is_cryptopp ex
                 then Inr (mkStatusExt ErrorOpeningContentProviderCertificateNotVerified
                             (GetWhat ex))
                 else Inl ex, s2)"
    by (simp add: VerifyLicense_revocation_result(1) [OF assms(1-5)] catch_cryptopp_def)
next
  fix s3 ex s4
  assume a: "((first \<and> (\<exists>s2. Update env s1 = (None, s2) \<and> s3 = Start env s2))
               \<or> (\<not> first \<and> s3 = s1))
            \<and> RethrowExceptionIfAny env s3 = (Some ex, s4)"
  then have b: "(first \<and> (\<exists>s2. Update env s1 = (None, s2) \<and> s3 = Start env s2))
               \<or> (\<not> first \<and> s3 = s1)"
    and r: "RethrowExceptionIfAny env s3 = (Some ex, s4)"
    by simp_all
  have "ProcessRevokation env pc s = (Inl ex, s4)"
    using r by (simp add: ProcessRevokation_before_rethrow [OF assms(6,7) b])
  then show "VerifyLicense env root license s
              = (if is_cryptopp ex
                 then Inr (mkStatusExt ErrorOpeningContentProviderCertificateNotVerified
                             (GetWhat ex))
                 else Inl ex, s4)"
    by (simp add: VerifyLicense_revocation_result(1) [OF assms(1-5)] catch_cryptopp_def)
next
  fix ex
  assume a: "timerException t = Some ex \<and> crlUrls t \<noteq> []"
  let ?t' = "t\<lparr>crlUrls := merge_urls (crlUrls t) (DistributionPoints env' c),
                timerException := None\<rparr>"
  have "ProcessRevokation (with_crl net env') c t = (Inl ex, ?t')"
    using a by (simp add: ProcessRevokation_pending)
  moreover have "timerException ?t' = None"
    by simp
  moreover have "\<exists>res t''. ProcessRevokation (with_crl net env') c ?t' = (Inr res, t'')"
    using a by (intro ProcessRevokation_clear) (simp_all add: merge_urls_nonempty)
  ultimately show "\<exists>t'. ProcessRevokation (with_crl net env') c t = (Inl ex, t')
                  \<and> timerException t' = None
                  \<and> (\<exists>res t''. ProcessRevokation (with_crl net env') c t' = (Inr res, t''))"
    by blast
qed

theorem VerifyLicense_crl_failure_witness:
  "VerifyLicense (test_env test_store net_down) ''root'' test_license fresh_state
     = (Inl (OtherException ''network unreachable''),
        \<lparr>crlUrls = [''u''], revokedSerials = [], timerStarted = False, timerException = None\<rparr>)
   \<and> VerifyLicense (test_env test_store net_empty) ''root'' test_license
        (known_state\<lparr>timerException := Some (CryptoppException ''CRL fetch failed'')\<rparr>)
     = (Inr (mkStatusExt ErrorOpeningContentProviderCertificateNotVerified ''CRL fetch failed''),
        known_state)
   \<and> timerException (known_state\<lparr>timerException := Some (CryptoppException ''CRL fetch failed'')\<rparr>)
        = Some (CryptoppException ''CRL fetch failed'')
   \<and> crlUrls (known_state\<lparr>timerException := Some (CryptoppException ''CRL fetch failed'')\<rparr>) \<noteq> []
   \<and> (\<exists>t'. ProcessRevokation (test_env test_store net_empty) test_provider
               (known_state\<lparr>timerException := Some (CryptoppException ''CRL fetch failed'')\<rparr>)
              = (Inl (CryptoppException ''CRL fetch failed''), t')
            \<and> timerException t' = None
            \<and> (\<exists>res t''. ProcessRevokation (test_env test_store net_empty) test_provider t'
                           = (Inr res, t'')))"
  using
    VerifyLicense_crl_failure [OF _ _ _ _ _ refl refl,
      where env = "test_env test_store net_down" and license = test_license
      and profile = test_profile and root = "''root''" and rc = test_root and pc = test_provider
      and s = fresh_state
      and t = "known_state\<lparr>timerException := Some (CryptoppException ''CRL fetch failed'')\<rparr>"
      and net = net_empty and env' = "test_env test_store net_empty" and c = test_provider]
    VerifyLicense_crl_failure [OF _ _ _ _ _ refl refl,
      where env = "test_env test_store net_empty" and license = test_license
      and profile = test_profile and root = "''root''" and rc = test_root and pc = test_provider
      and s = "known_state\<lparr>timerException := Some (CryptoppException ''CRL fetch failed'')\<rparr>"
      and t = "known_state\<lparr>timerException := Some (CryptoppException ''CRL fetch failed'')\<rparr>"
      and net = net_empty and env' = "test_env test_store net_empty" and c = test_provider]
  unfolding with_crl_test_env
  by (simp add: test_env_sel test_license_sel test_certificates fresh_state_def known_state_def
      crl_defs net_down_def)

text \<open>
  The claim C8 as it was stated calls such a failure non-fatal.  With the test license
  valid and the serial number of its certificate in no list, \<^verbatim>\<open>VerifyLicense\<close>
  succeeds when nothing is captured, returns the failure status
  \<^verbatim>\<open>ErrorOpeningContentProviderCertificateNotVerified\<close> when the timer has captured
  a Crypto++ exception, and is left by the exception of the first update when the
  network is down.
\<close>

theorem VerifyLicense_crl_failure_counterexample:
  "\<not> crl_SerialNumberRevoked known_state (SerialNumber (test_env test_store net_empty) test_provider)
   \<and> VerifyLicense (test_env test_store net_empty) ''root'' test_license known_state
     = (Inr (mkStatus ErrorCommonSuccess), known_state)
   \<and> VerifyLicense (test_env test_store net_empty) ''root'' test_license
        (known_state\<lparr>timerException := Some (CryptoppException ''CRL fetch failed'')\<rparr>)
     = (Inr (mkStatusExt ErrorOpeningContentProviderCertificateNotVerified ''CRL fetch failed''),
        known_state)
   \<and> VerifyLicense (test_env test_store net_down) ''root'' test_license fresh_state
     = (Inl (OtherException ''network unreachable''),
        \<lparr>crlUrls = [''u''], revokedSerials = [], timerStarted = False, timerException = None\<rparr>)"
  by (simp add: VerifyLicense_def VerifyLicense_try_def ProcessRevokation_def test_env_sel
      test_license_sel test_certificates test_dates fresh_state_def known_state_def crl_defs
      net_down_def catch_cryptopp_def IsSuccess_def mkStatus_def)

subsection \<open>File hash\<close>

lemma chunks_Nil [simp]: "chunks n [] = []"
  by (simp add: chunks.simps)












end
